theory Spec2Isabelle
  imports Complex_Main "HOL-Library.Word"
begin

unbundle bit_operations_syntax

section \<open>Values carried by the recorded operations\<close>

text \<open>
  The operations of \<^verbatim>\<open>DisplayListOp.h\<close> hold numbers and non-owning pointers.
  \<^item> A C++ \<^verbatim>\<open>int\<close> (and \<^verbatim>\<open>status_t\<close>) is a 32-bit word: \<open>+\<close> wraps, \<open>sint\<close> reads it
    as two's complement, \<open>AND\<close> and \<open>OR\<close> are the bitwise operators of the source.
  \<^item> A \<^verbatim>\<open>float\<close> is read as the real number it denotes: \<^verbatim>\<open>fminf\<close> and \<^verbatim>\<open>fmaxf\<close> are
    \<open>min\<close> and \<open>max\<close>, which is exact on every float that is a number. The float
    operations \<open>+\<close>, \<open>-\<close> and \<open>*\<close> of the source return the float nearest to the exact
    result (\<open>fadd\<close>, \<open>fsub\<close>, \<open>fmul\<close> below). NaN and the infinities, and so a result
    beyond the largest float, are outside this model.
  \<^item> A pointer to an externally owned object whose contents this file never reads
    (bitmap, path, matrix, region, shader, filter, functor, layer) is an opaque handle.
    A pointer that may be null and is read through is an \<open>option\<close>.
  \<^item> A \<^verbatim>\<open>mat4\<close> is only copied and compared byte by byte here, so it is the list of
    the bit patterns of its sixteen floats.
\<close>

type_synonym int32 = "32 word"
type_synonym float = real
type_synonym ptr = nat
type_synonym mat4 = "32 word list"
type_synonym Mode = nat

subsection \<open>Float arithmetic\<close>

text \<open>
  A \<^verbatim>\<open>float\<close> is an IEEE 754 binary32 number: a multiple of \<open>2 ^ (e - 23)\<close>, where \<open>e\<close> is
  the exponent of its binade and is at least \<open>- 126\<close> (below that the numbers are
  subnormal and keep the spacing \<open>2 ^ (- 149)\<close>). An operation rounds its exact result to
  the nearest such multiple, and a result halfway between two of them to the one with
  the even multiplier. \<open>float32_exponent a\<close> finds the binade of \<open>a \<ge> 0\<close> by counting up
  from \<open>- 126\<close> to at most \<open>127\<close>.
\<close>

definition pow2 :: "int \<Rightarrow> real" where
  "pow2 k = (if 0 \<le> k then 2 ^ nat k else 1 / 2 ^ nat (- k))"

fun float32_exponent_from :: "nat \<Rightarrow> int \<Rightarrow> real \<Rightarrow> int" where
  "float32_exponent_from 0 e a = e"
| "float32_exponent_from (Suc n) e a =
     (if a < pow2 (e + 1) then e else float32_exponent_from n (e + 1) a)"

definition float32_exponent :: "real \<Rightarrow> int" where
  "float32_exponent a = float32_exponent_from 253 (- 126) a"

definition round_half_even :: "real \<Rightarrow> int" where
  "round_half_even r =
     (let f = \<lfloor>r\<rfloor>; d = r - of_int f
      in if d < 1 / 2 then f else if 1 / 2 < d then f + 1 else if even f then f else f + 1)"

definition float32_round :: "real \<Rightarrow> real" where
  "float32_round x =
     (let u = pow2 (float32_exponent \<bar>x\<bar> - 23) in of_int (round_half_even (x / u)) * u)"

definition fadd :: "float \<Rightarrow> float \<Rightarrow> float" where
  "fadd a b = float32_round (a + b)"

definition fsub :: "float \<Rightarrow> float \<Rightarrow> float" where
  "fsub a b = float32_round (a - b)"

definition fmul :: "float \<Rightarrow> float \<Rightarrow> float" where
  "fmul a b = float32_round (a * b)"


subsection \<open>Rectangles, paints and the other values\<close>

record Rect =
  left :: float
  top :: float
  right :: float
  bottom :: float

datatype Style = kFill_Style | kStroke_Style | kStrokeAndFill_Style

text \<open>The getters of \<^verbatim>\<open>SkPaint\<close> that the operations call, as the fields of the paint.\<close>

record SkPaint =
  getStyle :: Style
  getStrokeWidth :: float
  getPathEffect :: "ptr option"
  isAntiAlias :: bool
  getColor :: "32 word"

datatype SkRegion_Op =
  kDifference_Op | kIntersect_Op | kUnion_Op | kXOR_Op | kReverseDifference_Op | kReplace_Op

text \<open>
  A nested recorded list, seen from \<^verbatim>\<open>DrawDisplayListOp\<close>: its identity and the
  answers of \<^verbatim>\<open>isRenderable()\<close>, \<^verbatim>\<open>getWidth()\<close> and \<^verbatim>\<open>getHeight()\<close>.
\<close>

record DisplayList =
  handle :: ptr
  isRenderable :: bool
  getWidth :: int32
  getHeight :: int32

datatype OpBatchId =
  kOpBatch_None | kOpBatch_Bitmap | kOpBatch_Patch | kOpBatch_AlphaVertices
  | kOpBatch_Vertices | kOpBatch_AlphaMaskTexture | kOpBatch_Text | kOpBatch_ColorText

text \<open>\<^verbatim>\<open>DeferredDisplayState\<close>: the two fields of the snapshot that this file touches.\<close>

record DeferredDisplayState =
  mBounds :: Rect
  mMatrix :: mat4

section \<open>The operation hierarchy\<close>

text \<open>
  Every class of the hierarchy is one constructor holding the fields the class and its
  bases below \<^verbatim>\<open>DrawOp\<close> (or \<^verbatim>\<open>StateOp\<close>) declare, in declaration order;
  the subclasses of \<^verbatim>\<open>DrawBoundedOp\<close> start with \<^verbatim>\<open>mLocalBounds\<close>. Virtual
  dispatch is a match on the constructor.
  \<^verbatim>\<open>ClipRegionOp\<close> declares a member \<^verbatim>\<open>mOp\<close> of its own beside the one it inherits
  from \<^verbatim>\<open>ClipOp\<close>; both are kept (inherited first, own last).
\<close>

datatype (plugins only: code size) StateOpClass =
    SaveOp int32
  | RestoreToCountOp int32
  | SaveLayerOp Rect int32 Mode int32
  | TranslateOp float float
  | RotateOp float
  | ScaleOp float float
  | SkewOp float float
  | SetMatrixOp ptr
  | ConcatMatrixOp ptr
  | ClipRectOp SkRegion_Op Rect
  | ClipPathOp SkRegion_Op ptr
  | ClipRegionOp SkRegion_Op ptr SkRegion_Op
  | ResetShaderOp
  | SetupShaderOp ptr
  | ResetColorFilterOp
  | SetupColorFilterOp ptr
  | ResetShadowOp
  | SetupShadowOp float float float int32
  | ResetPaintFilterOp
  | SetupPaintFilterOp int32 int32

datatype (plugins only: code size) DrawOpClass =
    DrawBitmapOp Rect ptr
  | DrawBitmapMatrixOp Rect ptr ptr
  | DrawBitmapRectOp Rect ptr Rect
  | DrawBitmapDataOp Rect ptr
  | DrawBitmapMeshOp Rect ptr int32 int32 "float list" "int32 list"
  | DrawPatchOp Rect ptr "int32 list" "int32 list" "32 word list" "32 word" "32 word"
      "8 word" int32 Mode
  | DrawColorOp int32 Mode
  | DrawRectOp Rect
  | DrawRectsOp Rect "float list" int32
  | DrawRoundRectOp Rect float float
  | DrawCircleOp Rect float float float
  | DrawOvalOp Rect
  | DrawArcOp Rect float float bool
  | DrawPathOp Rect ptr
  | DrawLinesOp Rect "float list" int32
  | DrawPointsOp Rect "float list" int32
  | DrawTextOnPathOp string int32 int32 ptr float float
  | DrawPosTextOp string int32 int32 "float list"
  | DrawTextOp Rect string int32 int32 float float "float list" float mat4
  | DrawFunctorOp ptr
  | DrawDisplayListOp Rect "DisplayList option" int32
  | DrawLayerOp ptr float float

record DisplayListOp =
  state :: DeferredDisplayState

record StateOp = DisplayListOp +
  stateClass :: StateOpClass

record DrawOp = DisplayListOp +
  mPaint :: "SkPaint option"
  mQuickRejected :: bool
  drawClass :: DrawOpClass

section \<open>The collaborators: renderer, deferred batch buffer, nested list\<close>

text \<open>
  \<^verbatim>\<open>OpenGLRenderer\<close>, \<^verbatim>\<open>DeferredDisplayList\<close> and \<^verbatim>\<open>DisplayList\<close> are defined
  outside this file. What an operation does to them is the sequence of calls it makes,
  so the two pass structures hold one log of calls, in call order, in place of the
  references \<^verbatim>\<open>mRenderer\<close> and \<^verbatim>\<open>mDeferredList\<close>. A call of the batch buffer logs
  the operation as it is at that moment; the renderer it is handed is the log before it.
\<close>

datatype (plugins only: code size) state_call =
    R_save int32
  | R_restoreToCount int32
  | R_getSaveCount
  | R_saveLayer float float float float int32 Mode int32
  | R_saveLayerDeferred float float float float int32 Mode int32
  | R_translate float float
  | R_rotate float
  | R_scale float float
  | R_skew float float
  | R_setMatrix ptr
  | R_concatMatrix ptr
  | R_clipRect float float float float SkRegion_Op
  | R_clipPath ptr SkRegion_Op
  | R_clipRegion ptr SkRegion_Op
  | R_resetShader
  | R_setupShader ptr
  | R_resetColorFilter
  | R_setupColorFilter ptr
  | R_resetShadow
  | R_setupShadow float float float int32
  | R_resetPaintFilter
  | R_setupPaintFilter int32 int32

datatype (plugins only: code size) draw_call =
    R_drawBitmap ptr float float "SkPaint option"
  | R_drawBitmapMatrix ptr ptr "SkPaint option"
  | R_drawBitmapRect ptr float float float float float float float float "SkPaint option"
  | R_drawBitmapData ptr float float "SkPaint option"
  | R_drawBitmapMesh ptr int32 int32 "float list" "int32 list" "SkPaint option"
  | R_drawPatch ptr "int32 list" "int32 list" "32 word list" "32 word" "32 word" "8 word"
      float float float float int32 Mode
  | R_drawColor int32 Mode
  | R_drawRect float float float float "SkPaint option"
  | R_drawRects "float list" int32 "SkPaint option"
  | R_drawRoundRect float float float float float float "SkPaint option"
  | R_drawCircle float float float "SkPaint option"
  | R_drawOval float float float float "SkPaint option"
  | R_drawArc float float float float float float bool "SkPaint option"
  | R_drawPath ptr "SkPaint option"
  | R_drawLines "float list" int32 "SkPaint option"
  | R_drawPoints "float list" int32 "SkPaint option"
  | R_drawTextOnPath string int32 int32 ptr float float "SkPaint option"
  | R_drawPosText string int32 int32 "float list" "SkPaint option"
  | R_drawText string int32 int32 float float "float list" "SkPaint option" float
  | R_callDrawGLFunction ptr Rect
  | R_drawLayer ptr float float

datatype (plugins only: code size) aux_call =
    R_filterPaint "SkPaint option"
  | R_startMark string
  | R_endMark
  | R_findBestFontTransform mat4
  | R_pathCache_precache ptr "SkPaint option"
  | R_getFontRenderer "SkPaint option"
  | R_fontRenderer_precache "SkPaint option" string int32 mat4

datatype (plugins only: code size) buffer_call =
    addDrawOp DrawOp
  | addClip StateOp
  | addSave StateOp int32
  | addSaveLayer StateOp int32
  | addRestoreToCount StateOp int32

text \<open>Entering a nested list, as a recording nested list logs it.\<close>

datatype (plugins only: code size) list_call =
    L_defer DisplayList int32
  | L_replay DisplayList int32

datatype (plugins only: code size) event =
    RendererState state_call
  | RendererDraw draw_call
  | RendererAux aux_call
  | DeferredList buffer_call
  | NestedList list_call

record PlaybackStateStruct =
  calls :: "event list"
  mReplayFlags :: int32

type_synonym DeferStateStruct = PlaybackStateStruct

record ReplayStateStruct = PlaybackStateStruct +
  mDirty :: Rect
  mDrawGlStatus :: int32

text \<open>
  What a collaborator returns is a function of the log up to and including the call
  that is answered, which covers every deterministic renderer and batch buffer.
  \<open>ret_int\<close> answers the calls that return an \<^verbatim>\<open>int\<close> or a \<^verbatim>\<open>status_t\<close>,
  \<open>ret_paint\<close> answers \<^verbatim>\<open>filterPaint\<close>, \<open>ret_mat4\<close> answers
  \<^verbatim>\<open>findBestFontTransform\<close>, and \<open>ret_dirty\<close> is the dirty rectangle as
  \<^verbatim>\<open>callDrawGLFunction\<close> leaves it. The two entry points of a nested list are defined
  in \<^verbatim>\<open>DisplayList.cpp\<close> and are parameters: they take the pass structure by
  reference and return it as they leave it.
\<close>

record Collaborators =
  ret_int :: "event list \<Rightarrow> int32"
  ret_paint :: "event list \<Rightarrow> SkPaint option"
  ret_mat4 :: "event list \<Rightarrow> mat4"
  ret_dirty :: "event list \<Rightarrow> Rect"
  DisplayList_defer :: "DisplayList \<Rightarrow> DeferStateStruct \<Rightarrow> int32 \<Rightarrow> DeferStateStruct"
  DisplayList_replay :: "DisplayList \<Rightarrow> ReplayStateStruct \<Rightarrow> int32 \<Rightarrow> ReplayStateStruct"

text \<open>
  Modelled from the spec: the enumerator \<^verbatim>\<open>DisplayList::kReplayFlag_ClipChildren\<close> is
  declared in \<^verbatim>\<open>DisplayList.h\<close>, which is not among the sources. The spec names it
  the clip-children flag of the replay flags; it is one bit, here the lowest.
\<close>

definition kReplayFlag_ClipChildren :: int32 where
  "kReplayFlag_ClipChildren = 1"

text \<open>
  Modelled from the spec: the enumerator \<^verbatim>\<open>DrawGlInfo::kStatusDone\<close> is declared in
  \<^verbatim>\<open>DrawGlInfo.h\<close>, which is not among the sources. The spec calls it the status
  of a draw that issued no GPU work; it sets no bit of the accumulator.
\<close>

definition kStatusDone :: int32 where
  "kStatusDone = 0"

text \<open>
  Modelled from the spec: \<^verbatim>\<open>Rect::set\<close>, \<^verbatim>\<open>Rect::setEmpty\<close> and \<^verbatim>\<open>Rect::outset\<close> are
  declared in \<^verbatim>\<open>Rect.h\<close>, which is not among the sources. \<open>Rect_set\<close> copies the
  four edges, the empty rectangle has its four edges at 0, and \<open>outset\<close> moves every
  edge outwards by the same distance, in float arithmetic as the edges are floats.
\<close>

definition Rect_set :: "Rect \<Rightarrow> Rect \<Rightarrow> Rect" where
  "Rect_set this r =
     this\<lparr>left := left r, top := top r, right := right r, bottom := bottom r\<rparr>"

definition setEmpty :: "Rect \<Rightarrow> Rect" where
  "setEmpty this = this\<lparr>left := 0, top := 0, right := 0, bottom := 0\<rparr>"

definition outset :: "Rect \<Rightarrow> float \<Rightarrow> Rect" where
  "outset this delta =
     this\<lparr>left := fsub (left this) delta, top := fsub (top this) delta,
          right := fadd (right this) delta, bottom := fadd (bottom this) delta\<rparr>"

text \<open>
  Modelled from the spec: \<^verbatim>\<open>mat4::identity()\<close> is declared in \<^verbatim>\<open>Matrix.h\<close>, which is
  not among the sources; the identity transform, as the bit patterns of its floats
  (\<open>0x3F800000\<close> is \<open>1.0f\<close>).
\<close>

definition mat4_identity :: mat4 where
  "mat4_identity =
     [0x3F800000, 0, 0, 0,  0, 0x3F800000, 0, 0,  0, 0, 0x3F800000, 0,  0, 0, 0, 0x3F800000]"

datatype fault = NullDereference | OutOfBounds

section \<open>State operations\<close>

text \<open>
  \<^verbatim>\<open>applyState\<close> of every subclass of \<^verbatim>\<open>StateOp\<close> makes one call of the renderer;
  \<open>applyState_call\<close> is that call, one equation per class.
\<close>

fun applyState_call :: "StateOpClass \<Rightarrow> int32 \<Rightarrow> state_call" where
  "applyState_call (SaveOp mFlags) saveCount = R_save mFlags"
| "applyState_call (RestoreToCountOp mCount) saveCount = R_restoreToCount (saveCount + mCount)"
| "applyState_call (SaveLayerOp mArea mAlpha mMode mFlags) saveCount =
     R_saveLayer (left mArea) (top mArea) (right mArea) (bottom mArea) mAlpha mMode mFlags"
| "applyState_call (TranslateOp mDx mDy) saveCount = R_translate mDx mDy"
| "applyState_call (RotateOp mDegrees) saveCount = R_rotate mDegrees"
| "applyState_call (ScaleOp mSx mSy) saveCount = R_scale mSx mSy"
| "applyState_call (SkewOp mSx mSy) saveCount = R_skew mSx mSy"
| "applyState_call (SetMatrixOp matrix) saveCount = R_setMatrix matrix"
| "applyState_call (ConcatMatrixOp matrix) saveCount = R_concatMatrix matrix"
| "applyState_call (ClipRectOp mOp mArea) saveCount =
     R_clipRect (left mArea) (top mArea) (right mArea) (bottom mArea) mOp"
| "applyState_call (ClipPathOp mOp mPath) saveCount = R_clipPath mPath mOp"
| "applyState_call (ClipRegionOp inheritedOp mRegion mOp) saveCount = R_clipRegion mRegion mOp"
| "applyState_call ResetShaderOp saveCount = R_resetShader"
| "applyState_call (SetupShaderOp mShader) saveCount = R_setupShader mShader"
| "applyState_call ResetColorFilterOp saveCount = R_resetColorFilter"
| "applyState_call (SetupColorFilterOp mColorFilter) saveCount = R_setupColorFilter mColorFilter"
| "applyState_call ResetShadowOp saveCount = R_resetShadow"
| "applyState_call (SetupShadowOp mRadius mDx mDy mColor) saveCount =
     R_setupShadow mRadius mDx mDy mColor"
| "applyState_call ResetPaintFilterOp saveCount = R_resetPaintFilter"
| "applyState_call (SetupPaintFilterOp mClearBits mSetBits) saveCount =
     R_setupPaintFilter mClearBits mSetBits"

definition applyState :: "StateOp \<Rightarrow> event list \<Rightarrow> int32 \<Rightarrow> event list" where
  "applyState this renderer saveCount =
     renderer @ [RendererState (applyState_call (stateClass this) saveCount)]"

text \<open>\<^verbatim>\<open>StateOp::defer\<close> and \<^verbatim>\<open>StateOp::replay\<close>, the defaults.\<close>

definition StateOp_defer ::
  "StateOp \<Rightarrow> DeferStateStruct \<Rightarrow> int32 \<Rightarrow> int32 \<Rightarrow> DeferStateStruct" where
  "StateOp_defer this deferStruct saveCount level =
     deferStruct\<lparr>calls := applyState this (calls deferStruct) saveCount\<rparr>"

definition StateOp_replay ::
  "StateOp \<Rightarrow> ReplayStateStruct \<Rightarrow> int32 \<Rightarrow> int32 \<Rightarrow> ReplayStateStruct" where
  "StateOp_replay this replayStruct saveCount level =
     replayStruct\<lparr>calls := applyState this (calls replayStruct) saveCount\<rparr>"

text \<open>
  The overrides of \<^verbatim>\<open>defer\<close>. Each takes \<open>this\<close> and the fields of its class it
  reads.
\<close>

definition SaveOp_defer ::
  "Collaborators \<Rightarrow> StateOp \<Rightarrow> int32 \<Rightarrow> DeferStateStruct \<Rightarrow> int32 \<Rightarrow> int32
    \<Rightarrow> DeferStateStruct" where
  "SaveOp_defer env this mFlags deferStruct saveCount level =
     (let r1 = calls deferStruct @ [RendererState (R_save mFlags)];
          newSaveCount = ret_int env r1
      in deferStruct\<lparr>calls := r1 @ [DeferredList (addSave this newSaveCount)]\<rparr>)"

definition RestoreToCountOp_defer ::
  "StateOp \<Rightarrow> int32 \<Rightarrow> DeferStateStruct \<Rightarrow> int32 \<Rightarrow> int32 \<Rightarrow> DeferStateStruct" where
  "RestoreToCountOp_defer this mCount deferStruct saveCount level =
     (let r1 = calls deferStruct @ [DeferredList (addRestoreToCount this (saveCount + mCount))]
      in deferStruct\<lparr>calls := r1 @ [RendererState (R_restoreToCount (saveCount + mCount))]\<rparr>)"

definition SaveLayerOp_defer ::
  "Collaborators \<Rightarrow> StateOp \<Rightarrow> Rect \<Rightarrow> int32 \<Rightarrow> Mode \<Rightarrow> int32 \<Rightarrow> DeferStateStruct
    \<Rightarrow> int32 \<Rightarrow> int32 \<Rightarrow> DeferStateStruct" where
  "SaveLayerOp_defer env this mArea mAlpha mMode mFlags deferStruct saveCount level =
     (let r1 = calls deferStruct @ [RendererState R_getSaveCount];
          newSaveCount = ret_int env r1;
          r2 = r1 @ [DeferredList (addSaveLayer this newSaveCount)]
      in deferStruct\<lparr>calls := r2 @ [RendererState
            (R_saveLayerDeferred (left mArea) (top mArea) (right mArea) (bottom mArea)
               mAlpha mMode mFlags)]\<rparr>)"

definition ClipOp_defer ::
  "StateOp \<Rightarrow> DeferStateStruct \<Rightarrow> int32 \<Rightarrow> int32 \<Rightarrow> DeferStateStruct" where
  "ClipOp_defer this deferStruct saveCount level =
     (let r1 = calls deferStruct @ [DeferredList (addClip this)]
      in deferStruct\<lparr>calls := applyState this r1 saveCount\<rparr>)"

text \<open>The virtual call \<^verbatim>\<open>op->defer(...)\<close> on a state operation.\<close>

definition defer_state ::
  "Collaborators \<Rightarrow> StateOp \<Rightarrow> DeferStateStruct \<Rightarrow> int32 \<Rightarrow> int32 \<Rightarrow> DeferStateStruct" where
  "defer_state env this deferStruct saveCount level =
     (case stateClass this of
        SaveOp mFlags \<Rightarrow> SaveOp_defer env this mFlags deferStruct saveCount level
      | RestoreToCountOp mCount \<Rightarrow> RestoreToCountOp_defer this mCount deferStruct saveCount level
      | SaveLayerOp mArea mAlpha mMode mFlags \<Rightarrow>
          SaveLayerOp_defer env this mArea mAlpha mMode mFlags deferStruct saveCount level
      | ClipRectOp mOp mArea \<Rightarrow> ClipOp_defer this deferStruct saveCount level
      | ClipPathOp mOp mPath \<Rightarrow> ClipOp_defer this deferStruct saveCount level
      | ClipRegionOp inheritedOp mRegion mOp \<Rightarrow> ClipOp_defer this deferStruct saveCount level
      | _ \<Rightarrow> StateOp_defer this deferStruct saveCount level)"

text \<open>No state operation overrides \<^verbatim>\<open>replay\<close>.\<close>

definition replay_state ::
  "StateOp \<Rightarrow> ReplayStateStruct \<Rightarrow> int32 \<Rightarrow> int32 \<Rightarrow> ReplayStateStruct" where
  "replay_state this replayStruct saveCount level =
     StateOp_replay this replayStruct saveCount level"

section \<open>Draw operations\<close>

subsection \<open>Local bounds\<close>

text \<open>\<^verbatim>\<open>mLocalBounds\<close> of the subclasses of \<^verbatim>\<open>DrawBoundedOp\<close>; the other classes have none.\<close>

fun DrawBoundedOp_mLocalBounds :: "DrawOpClass \<Rightarrow> Rect option" where
  "DrawBoundedOp_mLocalBounds (DrawBitmapOp mLocalBounds mBitmap) = Some mLocalBounds"
| "DrawBoundedOp_mLocalBounds (DrawBitmapMatrixOp mLocalBounds mBitmap matrix) = Some mLocalBounds"
| "DrawBoundedOp_mLocalBounds (DrawBitmapRectOp mLocalBounds mBitmap mSrc) = Some mLocalBounds"
| "DrawBoundedOp_mLocalBounds (DrawBitmapDataOp mLocalBounds mBitmap) = Some mLocalBounds"
| "DrawBoundedOp_mLocalBounds
     (DrawBitmapMeshOp mLocalBounds mBitmap mMeshWidth mMeshHeight mVertices mColors) =
       Some mLocalBounds"
| "DrawBoundedOp_mLocalBounds
     (DrawPatchOp mLocalBounds mBitmap mxDivs myDivs mColors mxDivsCount myDivsCount mNumColors
        mAlpha mMode) = Some mLocalBounds"
| "DrawBoundedOp_mLocalBounds (DrawRectOp mLocalBounds) = Some mLocalBounds"
| "DrawBoundedOp_mLocalBounds (DrawRectsOp mLocalBounds mRects mCount) = Some mLocalBounds"
| "DrawBoundedOp_mLocalBounds (DrawRoundRectOp mLocalBounds mRx mRy) = Some mLocalBounds"
| "DrawBoundedOp_mLocalBounds (DrawCircleOp mLocalBounds mX mY mRadius) = Some mLocalBounds"
| "DrawBoundedOp_mLocalBounds (DrawOvalOp mLocalBounds) = Some mLocalBounds"
| "DrawBoundedOp_mLocalBounds (DrawArcOp mLocalBounds mStartAngle mSweepAngle mUseCenter) =
     Some mLocalBounds"
| "DrawBoundedOp_mLocalBounds (DrawPathOp mLocalBounds mPath) = Some mLocalBounds"
| "DrawBoundedOp_mLocalBounds (DrawLinesOp mLocalBounds mPoints mCount) = Some mLocalBounds"
| "DrawBoundedOp_mLocalBounds (DrawPointsOp mLocalBounds mPoints mCount) = Some mLocalBounds"
| "DrawBoundedOp_mLocalBounds
     (DrawTextOp mLocalBounds mText mBytesCount mCount mX mY mPositions mLength
        mPrecacheTransform) = Some mLocalBounds"
| "DrawBoundedOp_mLocalBounds (DrawDisplayListOp mLocalBounds mDisplayList mFlags) =
     Some mLocalBounds"
| "DrawBoundedOp_mLocalBounds (DrawColorOp mColor mMode) = None"
| "DrawBoundedOp_mLocalBounds (DrawTextOnPathOp mText mBytesCount mCount mPath mHOffset mVOffset) =
     None"
| "DrawBoundedOp_mLocalBounds (DrawPosTextOp mText mBytesCount mCount mPositions) = None"
| "DrawBoundedOp_mLocalBounds (DrawFunctorOp mFunctor) = None"
| "DrawBoundedOp_mLocalBounds (DrawLayerOp mLayer mX mY) = None"

text \<open>The subclasses of \<^verbatim>\<open>DrawStrokableOp\<close>.\<close>

fun is_DrawStrokableOp :: "DrawOpClass \<Rightarrow> bool" where
  "is_DrawStrokableOp (DrawRectOp mLocalBounds) = True"
| "is_DrawStrokableOp (DrawRoundRectOp mLocalBounds mRx mRy) = True"
| "is_DrawStrokableOp (DrawCircleOp mLocalBounds mX mY mRadius) = True"
| "is_DrawStrokableOp (DrawOvalOp mLocalBounds) = True"
| "is_DrawStrokableOp (DrawArcOp mLocalBounds mStartAngle mSweepAngle mUseCenter) = True"
| "is_DrawStrokableOp other = False"

text \<open>
  \<^verbatim>\<open>DrawOp::strokeWidthOutset\<close> reads through \<^verbatim>\<open>mPaint\<close>, so it takes the paint that
  the pointer refers to; a caller whose \<^verbatim>\<open>mPaint\<close> is null faults before it.
\<close>

definition strokeWidthOutset :: "SkPaint \<Rightarrow> float" where
  "strokeWidthOutset paint = fmul (getStrokeWidth paint) 0.5"

text \<open>
  \<^verbatim>\<open>getLocalBounds(Rect& localBounds)\<close>: the result and the rectangle as the call leaves
  it. The three bodies are those of \<^verbatim>\<open>DrawOp\<close>, \<^verbatim>\<open>DrawBoundedOp\<close> and
  \<^verbatim>\<open>DrawStrokableOp\<close>.
\<close>

definition DrawOp_getLocalBounds :: "Rect \<Rightarrow> bool \<times> Rect" where
  "DrawOp_getLocalBounds localBounds = (False, localBounds)"

definition DrawBoundedOp_getLocalBounds :: "Rect \<Rightarrow> Rect \<Rightarrow> bool \<times> Rect" where
  "DrawBoundedOp_getLocalBounds mLocalBounds localBounds =
     (True, Rect_set localBounds mLocalBounds)"

definition DrawStrokableOp_getLocalBounds ::
  "SkPaint option \<Rightarrow> Rect \<Rightarrow> Rect \<Rightarrow> bool \<times> Rect" where
  "DrawStrokableOp_getLocalBounds thisPaint mLocalBounds localBounds =
     (let b = Rect_set localBounds mLocalBounds
      in (True,
          case thisPaint of
            None \<Rightarrow> b
          | Some paint \<Rightarrow>
              if getStyle paint \<noteq> kFill_Style then outset b (strokeWidthOutset paint) else b))"

definition getLocalBounds :: "DrawOp \<Rightarrow> Rect \<Rightarrow> bool \<times> Rect" where
  "getLocalBounds this localBounds =
     (case DrawBoundedOp_mLocalBounds (drawClass this) of
        None \<Rightarrow> DrawOp_getLocalBounds localBounds
      | Some mLocalBounds \<Rightarrow>
          if is_DrawStrokableOp (drawClass this)
          then DrawStrokableOp_getLocalBounds (mPaint this) mLocalBounds localBounds
          else DrawBoundedOp_getLocalBounds mLocalBounds localBounds)"

subsection \<open>Batch ids\<close>

definition DrawStrokableOp_getBatchId :: "SkPaint option \<Rightarrow> fault + OpBatchId" where
  "DrawStrokableOp_getBatchId thisPaint =
     (case thisPaint of
        None \<Rightarrow> Inl NullDereference
      | Some paint \<Rightarrow>
          if getPathEffect paint \<noteq> None then Inr kOpBatch_AlphaMaskTexture
          else Inr (if isAntiAlias paint then kOpBatch_AlphaVertices else kOpBatch_Vertices))"

definition DrawLinesOp_getBatchId :: "SkPaint option \<Rightarrow> fault + OpBatchId" where
  "DrawLinesOp_getBatchId thisPaint =
     (case thisPaint of
        None \<Rightarrow> Inl NullDereference
      | Some paint \<Rightarrow>
          Inr (if isAntiAlias paint then kOpBatch_AlphaVertices else kOpBatch_Vertices))"

text \<open>The body shared by \<^verbatim>\<open>DrawSomeTextOp::getBatchId\<close> and \<^verbatim>\<open>DrawTextOp::getBatchId\<close>.\<close>

definition DrawTextOp_getBatchId :: "SkPaint option \<Rightarrow> fault + OpBatchId" where
  "DrawTextOp_getBatchId thisPaint =
     (case thisPaint of
        None \<Rightarrow> Inl NullDereference
      | Some paint \<Rightarrow>
          Inr (if getColor paint = 0xff000000 then kOpBatch_Text else kOpBatch_ColorText))"

fun getBatchId_class :: "SkPaint option \<Rightarrow> DrawOpClass \<Rightarrow> fault + OpBatchId" where
  "getBatchId_class thisPaint (DrawBitmapOp mLocalBounds mBitmap) = Inr kOpBatch_Bitmap"
| "getBatchId_class thisPaint (DrawBitmapMatrixOp mLocalBounds mBitmap matrix) =
     Inr kOpBatch_Bitmap"
| "getBatchId_class thisPaint (DrawBitmapRectOp mLocalBounds mBitmap mSrc) = Inr kOpBatch_Bitmap"
| "getBatchId_class thisPaint (DrawBitmapDataOp mLocalBounds mBitmap) = Inr kOpBatch_Bitmap"
| "getBatchId_class thisPaint
     (DrawBitmapMeshOp mLocalBounds mBitmap mMeshWidth mMeshHeight mVertices mColors) =
       Inr kOpBatch_Bitmap"
| "getBatchId_class thisPaint
     (DrawPatchOp mLocalBounds mBitmap mxDivs myDivs mColors mxDivsCount myDivsCount mNumColors
        mAlpha mMode) = Inr kOpBatch_Patch"
| "getBatchId_class thisPaint (DrawColorOp mColor mMode) = Inr kOpBatch_None"
| "getBatchId_class thisPaint (DrawRectOp mLocalBounds) = DrawStrokableOp_getBatchId thisPaint"
| "getBatchId_class thisPaint (DrawRectsOp mLocalBounds mRects mCount) = Inr kOpBatch_Vertices"
| "getBatchId_class thisPaint (DrawRoundRectOp mLocalBounds mRx mRy) =
     DrawStrokableOp_getBatchId thisPaint"
| "getBatchId_class thisPaint (DrawCircleOp mLocalBounds mX mY mRadius) =
     DrawStrokableOp_getBatchId thisPaint"
| "getBatchId_class thisPaint (DrawOvalOp mLocalBounds) = DrawStrokableOp_getBatchId thisPaint"
| "getBatchId_class thisPaint (DrawArcOp mLocalBounds mStartAngle mSweepAngle mUseCenter) =
     DrawStrokableOp_getBatchId thisPaint"
| "getBatchId_class thisPaint (DrawPathOp mLocalBounds mPath) = Inr kOpBatch_AlphaMaskTexture"
| "getBatchId_class thisPaint (DrawLinesOp mLocalBounds mPoints mCount) =
     DrawLinesOp_getBatchId thisPaint"
| "getBatchId_class thisPaint (DrawPointsOp mLocalBounds mPoints mCount) =
     DrawLinesOp_getBatchId thisPaint"
| "getBatchId_class thisPaint
     (DrawTextOnPathOp mText mBytesCount mCount mPath mHOffset mVOffset) =
       DrawTextOp_getBatchId thisPaint"
| "getBatchId_class thisPaint (DrawPosTextOp mText mBytesCount mCount mPositions) =
     DrawTextOp_getBatchId thisPaint"
| "getBatchId_class thisPaint
     (DrawTextOp mLocalBounds mText mBytesCount mCount mX mY mPositions mLength
        mPrecacheTransform) = DrawTextOp_getBatchId thisPaint"
| "getBatchId_class thisPaint (DrawFunctorOp mFunctor) = Inr kOpBatch_None"
| "getBatchId_class thisPaint (DrawDisplayListOp mLocalBounds mDisplayList mFlags) =
     Inr kOpBatch_None"
| "getBatchId_class thisPaint (DrawLayerOp mLayer mX mY) = Inr kOpBatch_None"

definition getBatchId :: "DrawOp \<Rightarrow> fault + OpBatchId" where
  "getBatchId this = getBatchId_class (mPaint this) (drawClass this)"

subsection \<open>Drawing\<close>

text \<open>
  \<^verbatim>\<open>DrawOp::getPaint\<close> calls \<^verbatim>\<open>renderer.filterPaint(mPaint)\<close>. \<open>issue\<close> is one call of
  a \<^verbatim>\<open>draw*\<close> method and its status. In the source \<^verbatim>\<open>getPaint(renderer)\<close> is the only
  argument of a draw call that has an effect, so it is logged before the draw call.
\<close>

definition getPaint ::
  "Collaborators \<Rightarrow> SkPaint option \<Rightarrow> event list \<Rightarrow> SkPaint option \<times> event list" where
  "getPaint env thisPaint renderer =
     (let r1 = renderer @ [RendererAux (R_filterPaint thisPaint)] in (ret_paint env r1, r1))"

definition issue :: "Collaborators \<Rightarrow> draw_call \<Rightarrow> event list \<Rightarrow> int32 \<times> event list" where
  "issue env c renderer = (let r1 = renderer @ [RendererDraw c] in (ret_int env r1, r1))"

definition drawWithPaint ::
  "Collaborators \<Rightarrow> SkPaint option \<Rightarrow> (SkPaint option \<Rightarrow> draw_call) \<Rightarrow> event list \<Rightarrow> Rect
    \<Rightarrow> int32 \<times> Rect \<times> event list" where
  "drawWithPaint env thisPaint c renderer dirty =
     (let (paint, r1) = getPaint env thisPaint renderer;
          (status, r2) = issue env (c paint) r1
      in (status, dirty, r2))"

definition drawWithoutPaint ::
  "Collaborators \<Rightarrow> draw_call \<Rightarrow> event list \<Rightarrow> Rect \<Rightarrow> int32 \<times> Rect \<times> event list" where
  "drawWithoutPaint env c renderer dirty =
     (let (status, r1) = issue env c renderer in (status, dirty, r1))"

text \<open>
  \<^verbatim>\<open>applyDraw(renderer, dirty, level)\<close>, one equation per class: the status returned,
  the dirty rectangle and the renderer as the call leaves them.
\<close>

fun applyDraw_class ::
  "Collaborators \<Rightarrow> SkPaint option \<Rightarrow> DrawOpClass \<Rightarrow> event list \<Rightarrow> Rect \<Rightarrow> int32
    \<Rightarrow> int32 \<times> Rect \<times> event list" where
  "applyDraw_class env thisPaint (DrawBitmapOp mLocalBounds mBitmap) renderer dirty level =
     drawWithPaint env thisPaint
       (R_drawBitmap mBitmap (left mLocalBounds) (top mLocalBounds)) renderer dirty"
| "applyDraw_class env thisPaint (DrawBitmapMatrixOp mLocalBounds mBitmap matrix)
     renderer dirty level =
     drawWithPaint env thisPaint (R_drawBitmapMatrix mBitmap matrix) renderer dirty"
| "applyDraw_class env thisPaint (DrawBitmapRectOp mLocalBounds mBitmap mSrc)
     renderer dirty level =
     drawWithPaint env thisPaint
       (R_drawBitmapRect mBitmap (left mSrc) (top mSrc) (right mSrc) (bottom mSrc)
          (left mLocalBounds) (top mLocalBounds) (right mLocalBounds) (bottom mLocalBounds))
       renderer dirty"
| "applyDraw_class env thisPaint (DrawBitmapDataOp mLocalBounds mBitmap) renderer dirty level =
     drawWithPaint env thisPaint
       (R_drawBitmapData mBitmap (left mLocalBounds) (top mLocalBounds)) renderer dirty"
| "applyDraw_class env thisPaint
     (DrawBitmapMeshOp mLocalBounds mBitmap mMeshWidth mMeshHeight mVertices mColors)
     renderer dirty level =
     drawWithPaint env thisPaint
       (R_drawBitmapMesh mBitmap mMeshWidth mMeshHeight mVertices mColors) renderer dirty"
| "applyDraw_class env thisPaint
     (DrawPatchOp mLocalBounds mBitmap mxDivs myDivs mColors mxDivsCount myDivsCount mNumColors
        mAlpha mMode) renderer dirty level =
     drawWithoutPaint env
       (R_drawPatch mBitmap mxDivs myDivs mColors mxDivsCount myDivsCount mNumColors
          (left mLocalBounds) (top mLocalBounds) (right mLocalBounds) (bottom mLocalBounds)
          mAlpha mMode) renderer dirty"
| "applyDraw_class env thisPaint (DrawColorOp mColor mMode) renderer dirty level =
     drawWithoutPaint env (R_drawColor mColor mMode) renderer dirty"
| "applyDraw_class env thisPaint (DrawRectOp mLocalBounds) renderer dirty level =
     drawWithPaint env thisPaint
       (R_drawRect (left mLocalBounds) (top mLocalBounds) (right mLocalBounds)
          (bottom mLocalBounds)) renderer dirty"
| "applyDraw_class env thisPaint (DrawRectsOp mLocalBounds mRects mCount) renderer dirty level =
     drawWithPaint env thisPaint (R_drawRects mRects mCount) renderer dirty"
| "applyDraw_class env thisPaint (DrawRoundRectOp mLocalBounds mRx mRy) renderer dirty level =
     drawWithPaint env thisPaint
       (R_drawRoundRect (left mLocalBounds) (top mLocalBounds) (right mLocalBounds)
          (bottom mLocalBounds) mRx mRy) renderer dirty"
| "applyDraw_class env thisPaint (DrawCircleOp mLocalBounds mX mY mRadius) renderer dirty level =
     drawWithPaint env thisPaint (R_drawCircle mX mY mRadius) renderer dirty"
| "applyDraw_class env thisPaint (DrawOvalOp mLocalBounds) renderer dirty level =
     drawWithPaint env thisPaint
       (R_drawOval (left mLocalBounds) (top mLocalBounds) (right mLocalBounds)
          (bottom mLocalBounds)) renderer dirty"
| "applyDraw_class env thisPaint (DrawArcOp mLocalBounds mStartAngle mSweepAngle mUseCenter)
     renderer dirty level =
     drawWithPaint env thisPaint
       (R_drawArc (left mLocalBounds) (top mLocalBounds) (right mLocalBounds)
          (bottom mLocalBounds) mStartAngle mSweepAngle mUseCenter) renderer dirty"
| "applyDraw_class env thisPaint (DrawPathOp mLocalBounds mPath) renderer dirty level =
     drawWithPaint env thisPaint (R_drawPath mPath) renderer dirty"
| "applyDraw_class env thisPaint (DrawLinesOp mLocalBounds mPoints mCount) renderer dirty level =
     drawWithPaint env thisPaint (R_drawLines mPoints mCount) renderer dirty"
| "applyDraw_class env thisPaint (DrawPointsOp mLocalBounds mPoints mCount) renderer dirty level =
     drawWithPaint env thisPaint (R_drawPoints mPoints mCount) renderer dirty"
| "applyDraw_class env thisPaint
     (DrawTextOnPathOp mText mBytesCount mCount mPath mHOffset mVOffset) renderer dirty level =
     drawWithPaint env thisPaint
       (R_drawTextOnPath mText mBytesCount mCount mPath mHOffset mVOffset) renderer dirty"
| "applyDraw_class env thisPaint (DrawPosTextOp mText mBytesCount mCount mPositions)
     renderer dirty level =
     drawWithPaint env thisPaint (R_drawPosText mText mBytesCount mCount mPositions)
       renderer dirty"
| "applyDraw_class env thisPaint
     (DrawTextOp mLocalBounds mText mBytesCount mCount mX mY mPositions mLength
        mPrecacheTransform) renderer dirty level =
     drawWithPaint env thisPaint
       (\<lambda>paint. R_drawText mText mBytesCount mCount mX mY mPositions paint mLength)
       renderer dirty"
| "applyDraw_class env thisPaint (DrawFunctorOp mFunctor) renderer dirty level =
     (let r1 = renderer @ [RendererAux (R_startMark ''GL functor'')];
          r2 = r1 @ [RendererDraw (R_callDrawGLFunction mFunctor dirty)];
          ret = ret_int env r2;
          dirty' = ret_dirty env r2;
          r3 = r2 @ [RendererAux R_endMark]
      in (ret, dirty', r3))"
| "applyDraw_class env thisPaint (DrawDisplayListOp mLocalBounds mDisplayList mFlags)
     renderer dirty level = (kStatusDone, dirty, renderer)"
| "applyDraw_class env thisPaint (DrawLayerOp mLayer mX mY) renderer dirty level =
     drawWithoutPaint env (R_drawLayer mLayer mX mY) renderer dirty"

definition applyDraw ::
  "Collaborators \<Rightarrow> DrawOp \<Rightarrow> event list \<Rightarrow> Rect \<Rightarrow> int32 \<Rightarrow> int32 \<times> Rect \<times> event list" where
  "applyDraw env this renderer dirty level =
     applyDraw_class env (mPaint this) (drawClass this) renderer dirty level"

subsection \<open>The hook called by the batch buffer\<close>

text \<open>
  \<^verbatim>\<open>onDrawOpDeferred(renderer)\<close>: the fields of the class and the renderer as the call
  leaves them. \<^verbatim>\<open>renderer.getCaches().fontRenderer->getFontRenderer(paint)\<close> is one
  logged call, and so are the two \<^verbatim>\<open>precache\<close> calls on the caches.
  \<^verbatim>\<open>mPrecacheTransform != transform\<close> compares the sixteen floats byte by byte.
\<close>

definition DrawSomeTextOp_onDrawOpDeferred ::
  "Collaborators \<Rightarrow> SkPaint option \<Rightarrow> string \<Rightarrow> int32 \<Rightarrow> event list \<Rightarrow> event list" where
  "DrawSomeTextOp_onDrawOpDeferred env thisPaint mText mCount renderer =
     (let (paint, r1) = getPaint env thisPaint renderer;
          r2 = r1 @ [RendererAux (R_getFontRenderer paint)]
      in r2 @ [RendererAux (R_fontRenderer_precache paint mText mCount mat4_identity)])"

fun onDrawOpDeferred_class ::
  "Collaborators \<Rightarrow> DeferredDisplayState \<Rightarrow> SkPaint option \<Rightarrow> DrawOpClass \<Rightarrow> event list
    \<Rightarrow> DrawOpClass \<times> event list" where
  "onDrawOpDeferred_class env st thisPaint (DrawPathOp mLocalBounds mPath) renderer =
     (let (paint, r1) = getPaint env thisPaint renderer
      in (DrawPathOp mLocalBounds mPath, r1 @ [RendererAux (R_pathCache_precache mPath paint)]))"
| "onDrawOpDeferred_class env st thisPaint
     (DrawTextOnPathOp mText mBytesCount mCount mPath mHOffset mVOffset) renderer =
     (DrawTextOnPathOp mText mBytesCount mCount mPath mHOffset mVOffset,
      DrawSomeTextOp_onDrawOpDeferred env thisPaint mText mCount renderer)"
| "onDrawOpDeferred_class env st thisPaint (DrawPosTextOp mText mBytesCount mCount mPositions)
     renderer =
     (DrawPosTextOp mText mBytesCount mCount mPositions,
      DrawSomeTextOp_onDrawOpDeferred env thisPaint mText mCount renderer)"
| "onDrawOpDeferred_class env st thisPaint
     (DrawTextOp mLocalBounds mText mBytesCount mCount mX mY mPositions mLength
        mPrecacheTransform) renderer =
     (let (paint, r1) = getPaint env thisPaint renderer;
          r2 = r1 @ [RendererAux (R_getFontRenderer paint)];
          r3 = r2 @ [RendererAux (R_findBestFontTransform (mMatrix st))];
          transform = ret_mat4 env r3
      in if mPrecacheTransform \<noteq> transform
         then (DrawTextOp mLocalBounds mText mBytesCount mCount mX mY mPositions mLength
                 transform,
               r3 @ [RendererAux (R_fontRenderer_precache paint mText mCount transform)])
         else (DrawTextOp mLocalBounds mText mBytesCount mCount mX mY mPositions mLength
                 mPrecacheTransform, r3))"
| "onDrawOpDeferred_class env st thisPaint other renderer = (other, renderer)"

definition onDrawOpDeferred ::
  "Collaborators \<Rightarrow> DrawOp \<Rightarrow> event list \<Rightarrow> DrawOp \<times> event list" where
  "onDrawOpDeferred env this renderer =
     (let (c, r) = onDrawOpDeferred_class env (state this) (mPaint this) (drawClass this) renderer
      in (this\<lparr>drawClass := c\<rparr>, r))"

subsection \<open>The two passes\<close>

text \<open>
  \<^verbatim>\<open>DrawOp::defer\<close> writes \<^verbatim>\<open>state.mBounds\<close> of the operation, so it returns the
  operation with the pass structure. The batch buffer is handed \<^verbatim>\<open>this\<close> after the
  bounds are written.
\<close>

definition DrawOp_defer ::
  "DrawOp \<Rightarrow> DeferStateStruct \<Rightarrow> int32 \<Rightarrow> int32 \<Rightarrow> DrawOp \<times> DeferStateStruct" where
  "DrawOp_defer this deferStruct saveCount level =
     (if mQuickRejected this \<and> mReplayFlags deferStruct AND kReplayFlag_ClipChildren \<noteq> 0
      then (this, deferStruct)
      else
        (let (exist, b) = getLocalBounds this (mBounds (state this));
             b' = (if \<not> exist then setEmpty b else b);
             this' = this\<lparr>state := (state this)\<lparr>mBounds := b'\<rparr>\<rparr>
         in (this',
             deferStruct\<lparr>calls := calls deferStruct @ [DeferredList (addDrawOp this')]\<rparr>)))"

definition DrawOp_replay ::
  "Collaborators \<Rightarrow> DrawOp \<Rightarrow> ReplayStateStruct \<Rightarrow> int32 \<Rightarrow> int32 \<Rightarrow> ReplayStateStruct" where
  "DrawOp_replay env this replayStruct saveCount level =
     (if mQuickRejected this \<and> mReplayFlags replayStruct AND kReplayFlag_ClipChildren \<noteq> 0
      then replayStruct
      else
        (let (status, dirty', r1) =
               applyDraw env this (calls replayStruct) (mDirty replayStruct) level
         in replayStruct\<lparr>calls := r1, mDirty := dirty',
              mDrawGlStatus := mDrawGlStatus replayStruct OR status\<rparr>))"

definition DrawDisplayListOp_defer ::
  "Collaborators \<Rightarrow> DisplayList option \<Rightarrow> DeferStateStruct \<Rightarrow> int32 \<Rightarrow> int32
    \<Rightarrow> DeferStateStruct" where
  "DrawDisplayListOp_defer env mDisplayList deferStruct saveCount level =
     (case mDisplayList of
        None \<Rightarrow> deferStruct
      | Some displayList \<Rightarrow>
          if isRenderable displayList
          then DisplayList_defer env displayList deferStruct (level + 1)
          else deferStruct)"

definition DrawDisplayListOp_replay ::
  "Collaborators \<Rightarrow> DisplayList option \<Rightarrow> ReplayStateStruct \<Rightarrow> int32 \<Rightarrow> int32
    \<Rightarrow> ReplayStateStruct" where
  "DrawDisplayListOp_replay env mDisplayList replayStruct saveCount level =
     (case mDisplayList of
        None \<Rightarrow> replayStruct
      | Some displayList \<Rightarrow>
          if isRenderable displayList
          then DisplayList_replay env displayList replayStruct (level + 1)
          else replayStruct)"

text \<open>The virtual calls \<^verbatim>\<open>op->defer(...)\<close> and \<^verbatim>\<open>op->replay(...)\<close> on a draw operation.\<close>

definition defer_draw ::
  "Collaborators \<Rightarrow> DrawOp \<Rightarrow> DeferStateStruct \<Rightarrow> int32 \<Rightarrow> int32
    \<Rightarrow> DrawOp \<times> DeferStateStruct" where
  "defer_draw env this deferStruct saveCount level =
     (case drawClass this of
        DrawDisplayListOp mLocalBounds mDisplayList mFlags \<Rightarrow>
          (this, DrawDisplayListOp_defer env mDisplayList deferStruct saveCount level)
      | _ \<Rightarrow> DrawOp_defer this deferStruct saveCount level)"

definition replay_draw ::
  "Collaborators \<Rightarrow> DrawOp \<Rightarrow> ReplayStateStruct \<Rightarrow> int32 \<Rightarrow> int32 \<Rightarrow> ReplayStateStruct" where
  "replay_draw env this replayStruct saveCount level =
     (case drawClass this of
        DrawDisplayListOp mLocalBounds mDisplayList mFlags \<Rightarrow>
          DrawDisplayListOp_replay env mDisplayList replayStruct saveCount level
      | _ \<Rightarrow> DrawOp_replay env this replayStruct saveCount level)"

text \<open>
  A recorded operation is a state operation or a draw operation. The two functions
  below are the pure virtual entry points \<^verbatim>\<open>defer\<close> and \<^verbatim>\<open>replay\<close> of
  \<^verbatim>\<open>DisplayListOp\<close>; they return the operation as the call leaves it beside the
  pass structure.
\<close>

datatype (plugins only: code size) Op = StateOperation StateOp | DrawOperation DrawOp

definition DisplayListOp_defer ::
  "Collaborators \<Rightarrow> Op \<Rightarrow> DeferStateStruct \<Rightarrow> int32 \<Rightarrow> int32 \<Rightarrow> Op \<times> DeferStateStruct" where
  "DisplayListOp_defer env op deferStruct saveCount level =
     (case op of
        StateOperation s \<Rightarrow> (StateOperation s, defer_state env s deferStruct saveCount level)
      | DrawOperation d \<Rightarrow>
          (let (d', deferStruct') = defer_draw env d deferStruct saveCount level
           in (DrawOperation d', deferStruct')))"

definition DisplayListOp_replay ::
  "Collaborators \<Rightarrow> Op \<Rightarrow> ReplayStateStruct \<Rightarrow> int32 \<Rightarrow> int32 \<Rightarrow> Op \<times> ReplayStateStruct" where
  "DisplayListOp_replay env op replayStruct saveCount level =
     (case op of
        StateOperation s \<Rightarrow> (StateOperation s, replay_state s replayStruct saveCount level)
      | DrawOperation d \<Rightarrow> (DrawOperation d, replay_draw env d replayStruct saveCount level))"

section \<open>Constructors\<close>

text \<open>
  Modelled from the spec: the constructor \<^verbatim>\<open>Rect(left, top, right, bottom)\<close> is declared
  in \<^verbatim>\<open>Rect.h\<close>, which is not among the sources; it stores its four arguments.
\<close>

definition Rect_new :: "float \<Rightarrow> float \<Rightarrow> float \<Rightarrow> float \<Rightarrow> Rect" where
  "Rect_new l t r b = \<lparr>left = l, top = t, right = r, bottom = b\<rparr>"

text \<open>
  \<^verbatim>\<open>DrawOp(paint)\<close> stores the paint and clears the quick-rejected flag. The state
  snapshot is default-constructed by code outside this file and is a parameter.
\<close>

definition DrawOp_new :: "DeferredDisplayState \<Rightarrow> SkPaint option \<Rightarrow> DrawOpClass \<Rightarrow> DrawOp" where
  "DrawOp_new st paint c =
     \<lparr>state = st, mPaint = paint, mQuickRejected = False, drawClass = c\<rparr>"

text \<open>
  The two constructors of \<^verbatim>\<open>DrawBoundedOp\<close> that compute \<^verbatim>\<open>mLocalBounds\<close>, given as
  the rectangle they store. The second reads \<^verbatim>\<open>points[0]\<close> and \<^verbatim>\<open>points[1]\<close> whatever
  \<^verbatim>\<open>count\<close> is, then runs \<^verbatim>\<open>for (int i = 2; i < count; i += 2)\<close>. \<open>points\<close> is
  the buffer behind the pointer; a read outside it is a fault. The loop counter is an
  integer that is compared with the signed value of \<open>count\<close>: while \<open>i < count\<close> holds
  with \<open>count\<close> even, \<open>i + 2\<close> does not exceed \<open>count\<close> and cannot wrap.
\<close>

definition DrawBoundedOp_bounds :: "float \<Rightarrow> float \<Rightarrow> float \<Rightarrow> float \<Rightarrow> Rect" where
  "DrawBoundedOp_bounds l t r b = Rect_new l t r b"

function points_loop :: "float list \<Rightarrow> int \<Rightarrow> int \<Rightarrow> Rect \<Rightarrow> fault + Rect" where
  "points_loop points count i mLocalBounds =
     (if i < count then
        (if 0 \<le> i \<and> nat (i + 1) < length points then
           points_loop points count (i + 2)
             (mLocalBounds\<lparr>left := min (left mLocalBounds) (points ! nat i),
                            right := max (right mLocalBounds) (points ! nat i),
                            top := min (top mLocalBounds) (points ! nat (i + 1)),
                            bottom := max (bottom mLocalBounds) (points ! nat (i + 1))\<rparr>)
         else Inl OutOfBounds)
      else Inr mLocalBounds)"
  by pat_completeness auto
termination
  by (relation "measure (\<lambda>(points, count, i, mLocalBounds). nat (count - i))") auto

declare points_loop.simps [simp del]

definition DrawBoundedOp_points :: "float list \<Rightarrow> int32 \<Rightarrow> fault + Rect" where
  "DrawBoundedOp_points points count =
     (if length points < 2 then Inl OutOfBounds
      else points_loop points (sint count) 2
             (Rect_new (points ! 0) (points ! 1) (points ! 0) (points ! 1)))"

text \<open>\<^verbatim>\<open>DrawStrokableOp(left, top, right, bottom, paint)\<close> and its five subclasses.\<close>

definition DrawStrokableOp_bounds :: "float \<Rightarrow> float \<Rightarrow> float \<Rightarrow> float \<Rightarrow> Rect" where
  "DrawStrokableOp_bounds l t r b = DrawBoundedOp_bounds l t r b"

definition DrawRectOp_new ::
  "DeferredDisplayState \<Rightarrow> float \<Rightarrow> float \<Rightarrow> float \<Rightarrow> float \<Rightarrow> SkPaint option \<Rightarrow> DrawOp" where
  "DrawRectOp_new st l t r b paint =
     DrawOp_new st paint (DrawRectOp (DrawStrokableOp_bounds l t r b))"









section \<open>Predicates on operations and calls\<close>

text \<open>The three subclasses of \<^verbatim>\<open>ClipOp\<close>, and the renderer calls that change the clip.\<close>

fun is_ClipOp :: "StateOpClass \<Rightarrow> bool" where
  "is_ClipOp (ClipRectOp mOp mArea) = True"
| "is_ClipOp (ClipPathOp mOp mPath) = True"
| "is_ClipOp (ClipRegionOp inheritedOp mRegion mOp) = True"
| "is_ClipOp other = False"

fun is_clip_call :: "state_call \<Rightarrow> bool" where
  "is_clip_call (R_clipRect l t r b mOp) = True"
| "is_clip_call (R_clipPath mPath mOp) = True"
| "is_clip_call (R_clipRegion mRegion mOp) = True"
| "is_clip_call other = False"

text \<open>A logged call of the renderer's immediate \<^verbatim>\<open>saveLayer\<close>.\<close>

fun is_saveLayer :: "event \<Rightarrow> bool" where
  "is_saveLayer (RendererState (R_saveLayer l t r b mAlpha mMode mFlags)) = True"
| "is_saveLayer other = False"

fun is_DrawDisplayListOp :: "DrawOpClass \<Rightarrow> bool" where
  "is_DrawDisplayListOp (DrawDisplayListOp mLocalBounds mDisplayList mFlags) = True"
| "is_DrawDisplayListOp other = False"

text \<open>\<^verbatim>\<open>DrawLinesOp\<close> and its subclass \<^verbatim>\<open>DrawPointsOp\<close>.\<close>

fun is_DrawLinesOp :: "DrawOpClass \<Rightarrow> bool" where
  "is_DrawLinesOp (DrawLinesOp mLocalBounds mPoints mCount) = True"
| "is_DrawLinesOp (DrawPointsOp mLocalBounds mPoints mCount) = True"
| "is_DrawLinesOp other = False"

fun is_DrawTextOp :: "DrawOpClass \<Rightarrow> bool" where
  "is_DrawTextOp
     (DrawTextOp mLocalBounds mText mBytesCount mCount mX mY mPositions mLength
        mPrecacheTransform) = True"
| "is_DrawTextOp other = False"

text \<open>
  The fields of a draw operation that its constructor receives or computes from its
  arguments: all of them but \<^verbatim>\<open>mPrecacheTransform\<close> of \<^verbatim>\<open>DrawTextOp\<close>, which the
  constructor fills with \<^verbatim>\<open>0xff\<close> bytes and which is blanked here.
\<close>

fun constructor_fields :: "DrawOpClass \<Rightarrow> DrawOpClass" where
  "constructor_fields
     (DrawTextOp mLocalBounds mText mBytesCount mCount mX mY mPositions mLength
        mPrecacheTransform) =
     DrawTextOp mLocalBounds mText mBytesCount mCount mX mY mPositions mLength []"
| "constructor_fields other = other"

text \<open>
  The bounds that \<^verbatim>\<open>DrawOp::defer\<close> leaves in \<^verbatim>\<open>state.mBounds\<close> when it runs in full:
  the local bounds, or the empty rectangle when there are none.
\<close>

definition deferred_bounds :: "DrawOp \<Rightarrow> Rect" where
  "deferred_bounds this =
     (case getLocalBounds this (mBounds (state this)) of
        (True, b) \<Rightarrow> b
      | (False, b) \<Rightarrow> setEmpty b)"

section \<open>The bounding rectangle of a point list, as the specification words it\<close>

text \<open>
  The specification's reading of the point-list constructor: start from the first point
  and fold every later point in by component-wise minimum and maximum. Point \<open>k\<close> is
  \<open>(points ! (2 * k), points ! (2 * k + 1))\<close>.
\<close>

definition spec_fold_point :: "float list \<Rightarrow> nat \<Rightarrow> Rect \<Rightarrow> Rect" where
  "spec_fold_point points k b =
     \<lparr>left = min (left b) (points ! (2 * k)), top = min (top b) (points ! (2 * k + 1)),
      right = max (right b) (points ! (2 * k)), bottom = max (bottom b) (points ! (2 * k + 1))\<rparr>"

definition spec_fold_bounds :: "float list \<Rightarrow> nat \<Rightarrow> Rect" where
  "spec_fold_bounds points N =
     fold (spec_fold_point points) [1..<N]
       (Rect_new (points ! 0) (points ! 1) (points ! 0) (points ! 1))"

text \<open>The x and the y coordinates of the points \<open>j, \<dots>, N - 1\<close>.\<close>

definition xs_from :: "float list \<Rightarrow> nat \<Rightarrow> nat \<Rightarrow> float set" where
  "xs_from points j N = (\<lambda>k. points ! (2 * k)) ` {j..<N}"

definition ys_from :: "float list \<Rightarrow> nat \<Rightarrow> nat \<Rightarrow> float set" where
  "ys_from points j N = (\<lambda>k. points ! (2 * k + 1)) ` {j..<N}"

section \<open>Sample collaborators and operations\<close>

text \<open>
  A recording renderer for the concrete instances below: an \<^verbatim>\<open>int\<close> answer is the
  number of calls logged so far, \<^verbatim>\<open>filterPaint\<close> hands the paint back, the best font
  transform is the identity, a functor leaves the dirty rectangle empty, and a nested
  list logs that it was entered and at which level.
\<close>

definition spy_filterPaint :: "event list \<Rightarrow> SkPaint option" where
  "spy_filterPaint history =
     (case last history of RendererAux (R_filterPaint paint) \<Rightarrow> paint | _ \<Rightarrow> None)"

definition spy :: Collaborators where
  "spy =
     \<lparr>ret_int = (\<lambda>history. of_nat (length history)),
      ret_paint = spy_filterPaint,
      ret_mat4 = (\<lambda>history. mat4_identity),
      ret_dirty = (\<lambda>history. Rect_new 0 0 0 0),
      DisplayList_defer =
        (\<lambda>displayList deferStruct level.
           deferStruct\<lparr>calls := calls deferStruct @ [NestedList (L_defer displayList level)]\<rparr>),
      DisplayList_replay =
        (\<lambda>displayList replayStruct level.
           replayStruct\<lparr>calls := calls replayStruct @ [NestedList (L_replay displayList level)]\<rparr>)\<rparr>"

definition state0 :: DeferredDisplayState where
  "state0 = \<lparr>mBounds = Rect_new 7 7 9 9, mMatrix = mat4_identity\<rparr>"

definition deferStruct0 :: "int32 \<Rightarrow> DeferStateStruct" where
  "deferStruct0 flags = \<lparr>calls = [], mReplayFlags = flags\<rparr>"

definition replayStruct0 :: "int32 \<Rightarrow> ReplayStateStruct" where
  "replayStruct0 flags =
     \<lparr>calls = [], mReplayFlags = flags, mDirty = Rect_new 0 0 0 0, mDrawGlStatus = 0\<rparr>"

definition strokePaint :: SkPaint where
  "strokePaint =
     \<lparr>getStyle = kStroke_Style, getStrokeWidth = 4, getPathEffect = None,
      isAntiAlias = True, getColor = 0xff000000\<rparr>"

definition fillPaint :: SkPaint where
  "fillPaint =
     \<lparr>getStyle = kFill_Style, getStrokeWidth = 4, getPathEffect = Some 1,
      isAntiAlias = True, getColor = 0xff336699\<rparr>"

definition nestedList0 :: DisplayList where
  "nestedList0 = \<lparr>handle = 5, isRenderable = True, getWidth = 100, getHeight = 50\<rparr>"

definition emptyList0 :: DisplayList where
  "emptyList0 = \<lparr>handle = 6, isRenderable = False, getWidth = 100, getHeight = 50\<rparr>"

definition listOp :: "bool \<Rightarrow> DisplayList option \<Rightarrow> DrawOp" where
  "listOp rejected displayList =
     \<lparr>state = state0, mPaint = None, mQuickRejected = rejected,
      drawClass = DrawDisplayListOp (Rect_new 0 0 100 50) displayList 0\<rparr>"

definition rectOp :: "bool \<Rightarrow> DrawOp" where
  "rectOp rejected = (DrawRectOp_new state0 0 0 50 50 (Some strokePaint))\<lparr>mQuickRejected := rejected\<rparr>"

definition colorOp :: "bool \<Rightarrow> DrawOp" where
  "colorOp rejected =
     \<lparr>state = state0, mPaint = None, mQuickRejected = rejected,
      drawClass = DrawColorOp 0xff00ff00 3\<rparr>"

text \<open>
  A text operation as its constructor leaves it: \<^verbatim>\<open>memset\<close> has set every byte of
  the cached transform to \<^verbatim>\<open>0xff\<close>.
\<close>

definition textOp :: DrawOp where
  "textOp =
     \<lparr>state = state0, mPaint = Some strokePaint, mQuickRejected = False,
      drawClass = DrawTextOp (Rect_new 0 (- 10) 30 2) ''abc'' 3 3 0 0 [] 30
                    (replicate 16 0xFFFFFFFF)\<rparr>"

definition stateOp :: "StateOpClass \<Rightarrow> StateOp" where
  "stateOp c = \<lparr>state = state0, stateClass = c\<rparr>"



definition effectPaint :: SkPaint where
  "effectPaint =
     \<lparr>getStyle = kStroke_Style, getStrokeWidth = 4, getPathEffect = Some 1,
      isAntiAlias = True, getColor = 0xff000000\<rparr>"

definition linesOp :: DrawOp where
  "linesOp =
     \<lparr>state = state0, mPaint = Some effectPaint, mQuickRejected = False,
      drawClass = DrawLinesOp (Rect_new (- 2) (- 2) 12 12) [0, 0, 10, 10] 4\<rparr>"

section \<open>Rounding to the nearest float\<close>

lemma pow2_powi: "pow2 k = 2 powi k"
  by (simp add: pow2_def power_int_def field_simps)




lemma pow2_strict_mono: "a < b \<Longrightarrow> pow2 a < pow2 b"
  by (simp add: pow2_powi power_int_strict_increasing)

lemma pow2_mono: "a \<le> b \<Longrightarrow> pow2 a \<le> pow2 b"
  by (simp add: pow2_powi power_int_increasing)




lemma float32_exponent_from_unique:
  "pow2 k \<le> a \<Longrightarrow> a < pow2 (k + 1) \<Longrightarrow> e \<le> k \<Longrightarrow> k < e + int n \<Longrightarrow>
     float32_exponent_from n e a = k"
proof (induction n arbitrary: e)
  case 0
  then show ?case by simp
next
  case (Suc n)
  show ?case
  proof (cases "e = k")
    case True
    with Suc.prems show ?thesis by simp
  next
    case False
    with Suc.prems have lt: "e + 1 \<le> k" by simp
    then have "pow2 (e + 1) \<le> a"
      using pow2_mono[of "e + 1" k] Suc.prems(1) by simp
    then have "\<not> a < pow2 (e + 1)" by simp
    moreover have "float32_exponent_from n (e + 1) a = k"
      using Suc.prems lt by (intro Suc.IH) simp_all
    ultimately show ?thesis by simp
  qed
qed


lemma float32_exponent_eq:
  assumes "pow2 k \<le> a" "a < pow2 (k + 1)" "- 126 \<le> k" "k \<le> 126"
  shows "float32_exponent a = k"
  unfolding float32_exponent_def
  using assms by (intro float32_exponent_from_unique) simp_all



text \<open>Rounding a concrete number, once its binade is known.\<close>

lemma float32_round_eval:
  assumes "pow2 k \<le> \<bar>x\<bar>" "\<bar>x\<bar> < pow2 (k + 1)" "- 126 \<le> k" "k \<le> 126"
  shows "float32_round x = of_int (round_half_even (x / pow2 (k - 23))) * pow2 (k - 23)"
  by (simp only: float32_round_def Let_def float32_exponent_eq[OF assms])




text \<open>The float operations on the sample values.\<close>

lemma float32_sample_ops:
  "fmul 4 (1 / 2) = 2" "fsub 0 2 = - 2" "fadd 50 2 = 52" "fadd 10 2 = 12"
  "fsub 0 (13421773 / 134217728) = - (13421773 / 134217728)"
  "fadd 50 (13421773 / 134217728) = 6566707 / 131072"
  "fsub (13421773 / 134217728) (5033165 / 16777216) = - (6710887 / 33554432)"
  "fsub 0 (5033165 / 16777216) = - (5033165 / 16777216)"
  "fadd (13421773 / 134217728) (5033165 / 16777216) = 13421773 / 33554432"
  "fadd 0 (5033165 / 16777216) = 5033165 / 16777216"
  by (simp_all add: fmul_def fsub_def fadd_def
      float32_round_eval[where k = 1] float32_round_eval[where k = 5]
      float32_round_eval[where k = 3] float32_round_eval[where k = "- 4"]
      float32_round_eval[where k = "- 3"] float32_round_eval[where k = "- 2"]
      pow2_def round_half_even_def)


section \<open>Bounds of a point list\<close>

lemma Min_insert_min:
  fixes a x :: real
  assumes "finite A"
  shows "Min (insert (min a x) A) = Min (insert a (insert x A))"
proof (cases "A = {}")
  case True
  then show ?thesis by simp
next
  case False
  with assms show ?thesis by (simp add: min.assoc)
qed

lemma Max_insert_max:
  fixes a x :: real
  assumes "finite A"
  shows "Max (insert (max a x) A) = Max (insert a (insert x A))"
proof (cases "A = {}")
  case True
  then show ?thesis by simp
next
  case False
  with assms show ?thesis by (simp add: max.assoc)
qed

lemma interval_step: "j < N \<Longrightarrow> {j..<N} = insert j {Suc j..<N}"
  by auto

lemma xs_from_step:
  "j < N \<Longrightarrow> xs_from points j N = insert (points ! (2 * j)) (xs_from points (Suc j) N)"
  unfolding xs_from_def by (simp add: interval_step)

lemma ys_from_step:
  "j < N \<Longrightarrow> ys_from points j N = insert (points ! (2 * j + 1)) (ys_from points (Suc j) N)"
  unfolding ys_from_def by (simp add: interval_step)

lemma finite_xs_from: "finite (xs_from points j N)"
  by (simp add: xs_from_def)

lemma finite_ys_from: "finite (ys_from points j N)"
  by (simp add: ys_from_def)

lemma points_loop_invariant:
  assumes "length points = 2 * N" and "j \<le> N"
  shows "points_loop points (int (2 * N)) (int (2 * j)) b =
           Inr \<lparr>left = Min (insert (left b) (xs_from points j N)),
                top = Min (insert (top b) (ys_from points j N)),
                right = Max (insert (right b) (xs_from points j N)),
                bottom = Max (insert (bottom b) (ys_from points j N))\<rparr>"
  using assms
proof (induction "N - j" arbitrary: j b)
  case 0
  then have "j = N" by simp
  then show ?case
    by (subst points_loop.simps) (simp add: xs_from_def ys_from_def)
next
  case (Suc n)
  then have lt: "j < N" by simp
  let ?b = "b\<lparr>left := min (left b) (points ! nat (int (2 * j))),
                right := max (right b) (points ! nat (int (2 * j))),
                top := min (top b) (points ! nat (int (2 * j) + 1)),
                bottom := max (bottom b) (points ! nat (int (2 * j) + 1))\<rparr>"
  have idx: "nat (int (2 * j)) = 2 * j" "nat (int (2 * j) + 1) = 2 * j + 1"
    by simp_all
  have next_i: "int (2 * j) + 2 = int (2 * Suc j)" by simp
  have c1: "int (2 * j) < int (2 * N)" using lt by simp
  have c2: "0 \<le> int (2 * j) \<and> nat (int (2 * j) + 1) < length points"
    using lt Suc.prems(1) by (simp add: idx)
  have step: "points_loop points (int (2 * N)) (int (2 * j)) b =
                points_loop points (int (2 * N)) (int (2 * Suc j)) ?b"
    by (subst points_loop.simps) (simp only: c1 c2 if_True next_i simp_thms)
  have ih: "points_loop points (int (2 * N)) (int (2 * Suc j)) ?b =
           Inr \<lparr>left = Min (insert (left ?b) (xs_from points (Suc j) N)),
                top = Min (insert (top ?b) (ys_from points (Suc j) N)),
                right = Max (insert (right ?b) (xs_from points (Suc j) N)),
                bottom = Max (insert (bottom ?b) (ys_from points (Suc j) N))\<rparr>"
    using Suc.hyps(2) Suc.prems lt by (intro Suc.hyps(1)) simp_all
  show ?case
    unfolding step ih
    by (simp only: idx xs_from_step[OF lt] ys_from_step[OF lt])
       (simp add: Min_insert_min Max_insert_max finite_xs_from finite_ys_from)
qed

lemma lessThan_interval: "{..<N} = {0..<N}" for N :: nat
  by auto

lemma DrawBoundedOp_points_value:
  assumes "1 \<le> N" "length points = 2 * N" "sint count = int (2 * N)"
  shows "DrawBoundedOp_points points count =
           Inr \<lparr>left = Min ((\<lambda>k. points ! (2 * k)) ` {..<N}),
                top = Min ((\<lambda>k. points ! (2 * k + 1)) ` {..<N}),
                right = Max ((\<lambda>k. points ! (2 * k)) ` {..<N}),
                bottom = Max ((\<lambda>k. points ! (2 * k + 1)) ` {..<N})\<rparr>"
proof -
  have pos: "0 < N" using assms(1) by simp
  have two: "(2::int) = int (2 * 1)" by simp
  have len: "\<not> length points < 2" using assms by simp
  have x0: "xs_from points 0 N = insert (points ! 0) (xs_from points (Suc 0) N)"
    using xs_from_step[OF pos, of points] by simp
  have y0: "ys_from points 0 N = insert (points ! 1) (ys_from points (Suc 0) N)"
    using ys_from_step[OF pos, of points] by simp
  have "DrawBoundedOp_points points count =
          points_loop points (int (2 * N)) (int (2 * 1))
            (Rect_new (points ! 0) (points ! 1) (points ! 0) (points ! 1))"
    unfolding DrawBoundedOp_points_def using len assms(3) by simp
  also have "\<dots> = Inr \<lparr>left = Min (xs_from points 0 N), top = Min (ys_from points 0 N),
                       right = Max (xs_from points 0 N), bottom = Max (ys_from points 0 N)\<rparr>"
    using assms(1) by (subst points_loop_invariant[OF assms(2)]) (simp_all add: x0 y0 Rect_new_def)
  finally show ?thesis
    by (simp add: xs_from_def ys_from_def lessThan_interval)
qed

lemma points_loop_fold:
  assumes "length points = 2 * N" and "j \<le> N"
  shows "points_loop points (int (2 * N)) (int (2 * j)) b =
           Inr (fold (spec_fold_point points) [j..<N] b)"
  using assms
proof (induction "N - j" arbitrary: j b)
  case 0
  then have "j = N" by simp
  then show ?case
    by (subst points_loop.simps) simp
next
  case (Suc n)
  then have lt: "j < N" by simp
  have idx: "nat (int (2 * j)) = 2 * j" "nat (int (2 * j) + 1) = 2 * j + 1"
    by simp_all
  have next_i: "int (2 * j) + 2 = int (2 * Suc j)" by simp
  have c1: "int (2 * j) < int (2 * N)" using lt by simp
  have c2: "0 \<le> int (2 * j) \<and> nat (int (2 * j) + 1) < length points"
    using lt Suc.prems(1) by (simp add: idx)
  have upd: "b\<lparr>left := min (left b) (points ! nat (int (2 * j))),
               right := max (right b) (points ! nat (int (2 * j))),
               top := min (top b) (points ! nat (int (2 * j) + 1)),
               bottom := max (bottom b) (points ! nat (int (2 * j) + 1))\<rparr> =
             spec_fold_point points j b"
    unfolding idx by (cases b) (simp add: spec_fold_point_def)
  have step: "points_loop points (int (2 * N)) (int (2 * j)) b =
                points_loop points (int (2 * N)) (int (2 * Suc j)) (spec_fold_point points j b)"
    by (subst points_loop.simps) (simp only: c1 c2 if_True next_i simp_thms upd)
  have ih: "points_loop points (int (2 * N)) (int (2 * Suc j)) (spec_fold_point points j b) =
              Inr (fold (spec_fold_point points) [Suc j..<N] (spec_fold_point points j b))"
    using Suc.hyps(2) Suc.prems lt by (intro Suc.hyps(1)) simp_all
  show ?case
    unfolding step ih using lt by (simp add: upt_conv_Cons)
qed

lemma DrawBoundedOp_points_fold:
  assumes "1 \<le> N" "length points = 2 * N" "sint count = int (2 * N)"
  shows "DrawBoundedOp_points points count = Inr (spec_fold_bounds points N)"
proof -
  have len: "\<not> length points < 2" using assms by simp
  have "DrawBoundedOp_points points count =
          points_loop points (int (2 * N)) (int (2 * 1))
            (Rect_new (points ! 0) (points ! 1) (points ! 0) (points ! 1))"
    unfolding DrawBoundedOp_points_def using len assms(3) by simp
  also have "\<dots> = Inr (spec_fold_bounds points N)"
    using assms(1) by (subst points_loop_fold[OF assms(2)]) (simp_all add: spec_fold_bounds_def)
  finally show ?thesis .
qed

text \<open>
  Claim C8. For a list of \<open>N \<ge> 1\<close> points, passed as \<open>2 * N\<close> floats with
  \<open>count = 2 * N\<close>, the point-list constructor of \<^verbatim>\<open>DrawBoundedOp\<close> returns the
  rectangle obtained by starting from the first point and folding every later point in
  by component-wise minimum and maximum. Its edges are the least and the greatest
  coordinates, so it contains all \<open>N\<close> points, and for \<open>N = 1\<close> it is the degenerate
  rectangle at the single point.
\<close>

theorem DrawBoundedOp_points_contains_all:
  assumes "1 \<le> N" "length points = 2 * N" "sint count = int (2 * N)"
  shows "\<exists>b. DrawBoundedOp_points points count = Inr b
           \<and> b = spec_fold_bounds points N
           \<and> left b = Min ((\<lambda>k. points ! (2 * k)) ` {..<N})
           \<and> top b = Min ((\<lambda>k. points ! (2 * k + 1)) ` {..<N})
           \<and> right b = Max ((\<lambda>k. points ! (2 * k)) ` {..<N})
           \<and> bottom b = Max ((\<lambda>k. points ! (2 * k + 1)) ` {..<N})
           \<and> (\<forall>k<N. left b \<le> points ! (2 * k) \<and> points ! (2 * k) \<le> right b
                     \<and> top b \<le> points ! (2 * k + 1) \<and> points ! (2 * k + 1) \<le> bottom b)
           \<and> (N = 1 \<longrightarrow> b = Rect_new (points ! 0) (points ! 1) (points ! 0) (points ! 1))"
proof -
  let ?b = "\<lparr>left = Min ((\<lambda>k. points ! (2 * k)) ` {..<N}),
             top = Min ((\<lambda>k. points ! (2 * k + 1)) ` {..<N}),
             right = Max ((\<lambda>k. points ! (2 * k)) ` {..<N}),
             bottom = Max ((\<lambda>k. points ! (2 * k + 1)) ` {..<N})\<rparr>"
  have v: "DrawBoundedOp_points points count = Inr ?b"
    by (rule DrawBoundedOp_points_value[OF assms])
  have f: "DrawBoundedOp_points points count = Inr (spec_fold_bounds points N)"
    by (rule DrawBoundedOp_points_fold[OF assms])
  from v f have eq: "?b = spec_fold_bounds points N" by simp
  have inside: "\<forall>k<N. left ?b \<le> points ! (2 * k) \<and> points ! (2 * k) \<le> right ?b
                  \<and> top ?b \<le> points ! (2 * k + 1) \<and> points ! (2 * k + 1) \<le> bottom ?b"
    by simp
  have one: "N = 1 \<longrightarrow> ?b = Rect_new (points ! 0) (points ! 1) (points ! 0) (points ! 1)"
  proof
    assume "N = 1"
    then have "{..<N} = {0}" by auto
    then show "?b = Rect_new (points ! 0) (points ! 1) (points ! 0) (points ! 1)"
      by (simp add: Rect_new_def)
  qed
  show ?thesis
    apply (intro exI[of _ ?b] conjI)
           apply (rule v)
          apply (rule eq)
         apply simp
        apply simp
       apply simp
      apply simp
     apply (rule inside)
    apply (rule one)
    done
qed

theorem DrawBoundedOp_points_contains_all_witness:
  "(1::nat) \<le> 2 \<and> length [3, 1, 0, 5 :: float] = 2 * 2 \<and> sint (4 :: int32) = int (2 * 2)
   \<and> DrawBoundedOp_points [3, 1, 0, 5] 4 = Inr (Rect_new 0 1 3 5)"
proof -
  have h1: "(1::nat) \<le> 2" by simp
  have h2: "length [3, 1, 0, 5 :: float] = 2 * 2" by simp
  have h3: "sint (4 :: int32) = int (2 * 2)" by simp
  from DrawBoundedOp_points_contains_all[OF h1 h2 h3]
  obtain b where b: "DrawBoundedOp_points [3, 1, 0, 5] 4 = Inr b"
    "left b = Min ((\<lambda>k. [3, 1, 0, 5 :: float] ! (2 * k)) ` {..<2})"
    "top b = Min ((\<lambda>k. [3, 1, 0, 5 :: float] ! (2 * k + 1)) ` {..<2})"
    "right b = Max ((\<lambda>k. [3, 1, 0, 5 :: float] ! (2 * k)) ` {..<2})"
    "bottom b = Max ((\<lambda>k. [3, 1, 0, 5 :: float] ! (2 * k + 1)) ` {..<2})"
    by blast
  have two: "{..<2::nat} = {0, 1}" by auto
  have "b = Rect_new 0 1 3 5"
    using b(2-5) by (cases b) (simp add: Rect_new_def two)
  with b(1) h1 h2 h3 show ?thesis by simp
qed

section \<open>State operations in the two passes\<close>

lemma is_clip_call_applyState: "is_ClipOp c \<Longrightarrow> is_clip_call (applyState_call c saveCount)"
  by (cases c) simp_all

lemma defer_state_ClipOp:
  "is_ClipOp (stateClass this) \<Longrightarrow>
     defer_state env this deferStruct saveCount level =
       ClipOp_defer this deferStruct saveCount level"
  by (cases "stateClass this") (simp_all add: defer_state_def)

text \<open>
  Claim C3. For every clip operation (clip-rect, clip-path, clip-region), the defer entry
  point registers the operation with the batch buffer (\<^verbatim>\<open>addClip\<close>) and only then
  applies the operation's clip change to the renderer: the log grows by the
  registration followed by one clip call, so the log up to and including the
  registration is the log at entry, without the clip change of this operation.
\<close>

theorem ClipOp_defer_registers_before_clipping:
  assumes "is_ClipOp (stateClass this)"
  shows "defer_state env this deferStruct saveCount level =
           deferStruct\<lparr>calls := calls deferStruct @
             [DeferredList (addClip this),
              RendererState (applyState_call (stateClass this) saveCount)]\<rparr>
         \<and> is_clip_call (applyState_call (stateClass this) saveCount)
         \<and> take (Suc (length (calls deferStruct)))
               (calls (defer_state env this deferStruct saveCount level)) =
             calls deferStruct @ [DeferredList (addClip this)]"
proof -
  have d: "defer_state env this deferStruct saveCount level =
             deferStruct\<lparr>calls := calls deferStruct @
               [DeferredList (addClip this),
                RendererState (applyState_call (stateClass this) saveCount)]\<rparr>"
    by (simp add: defer_state_ClipOp[OF assms] ClipOp_defer_def applyState_def)
  have c: "is_clip_call (applyState_call (stateClass this) saveCount)"
    by (rule is_clip_call_applyState[OF assms])
  have t: "take (Suc (length (calls deferStruct)))
               (calls (defer_state env this deferStruct saveCount level)) =
             calls deferStruct @ [DeferredList (addClip this)]"
    unfolding d by simp
  from d c t show ?thesis by blast
qed

theorem ClipOp_defer_registers_before_clipping_witness:
  "is_ClipOp (stateClass (stateOp (ClipRectOp kIntersect_Op (Rect_new 0 0 10 10))))
   \<and> calls (defer_state spy (stateOp (ClipRectOp kIntersect_Op (Rect_new 0 0 10 10)))
             (deferStruct0 1) 0 0) =
       [DeferredList (addClip (stateOp (ClipRectOp kIntersect_Op (Rect_new 0 0 10 10)))),
        RendererState (R_clipRect 0 0 10 10 kIntersect_Op)]"
proof -
  have h: "is_ClipOp (stateClass (stateOp (ClipRectOp kIntersect_Op (Rect_new 0 0 10 10))))"
    by (simp add: stateOp_def)
  from ClipOp_defer_registers_before_clipping[OF h, of spy "deferStruct0 1" 0 0]
  have "defer_state spy (stateOp (ClipRectOp kIntersect_Op (Rect_new 0 0 10 10)))
             (deferStruct0 1) 0 0 =
          (deferStruct0 1)\<lparr>calls := calls (deferStruct0 1) @
             [DeferredList (addClip (stateOp (ClipRectOp kIntersect_Op (Rect_new 0 0 10 10)))),
              RendererState (applyState_call
                (stateClass (stateOp (ClipRectOp kIntersect_Op (Rect_new 0 0 10 10)))) 0)]\<rparr>"
    by blast
  then show ?thesis
    using h by (simp add: stateOp_def deferStruct0_def Rect_new_def)
qed

lemma defer_state_SaveLayerOp:
  "stateClass this = SaveLayerOp mArea mAlpha mMode mFlags \<Longrightarrow>
     defer_state env this deferStruct saveCount level =
       SaveLayerOp_defer env this mArea mAlpha mMode mFlags deferStruct saveCount level"
  by (simp add: defer_state_def)

text \<open>
  Claim C4. In a defer pass a \<^verbatim>\<open>SaveLayerOp\<close> reads the renderer's save count, registers
  itself with the batch buffer (\<^verbatim>\<open>addSaveLayer\<close>) with that count and then calls the
  state-only \<^verbatim>\<open>saveLayerDeferred\<close>; none of the calls it logs is the immediate
  \<^verbatim>\<open>saveLayer\<close>. The immediate \<^verbatim>\<open>saveLayer\<close> is what \<^verbatim>\<open>applyState\<close> (and so
  \<^verbatim>\<open>replay\<close>, which the flush runs) issues.
\<close>

theorem SaveLayerOp_defer_issues_placeholder_only:
  assumes "stateClass this = SaveLayerOp mArea mAlpha mMode mFlags"
  shows "defer_state env this deferStruct saveCount level =
           deferStruct\<lparr>calls := calls deferStruct @
             [RendererState R_getSaveCount,
              DeferredList (addSaveLayer this
                 (ret_int env (calls deferStruct @ [RendererState R_getSaveCount]))),
              RendererState (R_saveLayerDeferred (left mArea) (top mArea) (right mArea)
                 (bottom mArea) mAlpha mMode mFlags)]\<rparr>
         \<and> (\<forall>e \<in> set (drop (length (calls deferStruct))
                          (calls (defer_state env this deferStruct saveCount level))).
               \<not> is_saveLayer e)
         \<and> applyState this renderer saveCount =
             renderer @ [RendererState (R_saveLayer (left mArea) (top mArea) (right mArea)
                (bottom mArea) mAlpha mMode mFlags)]
         \<and> replay_state this replayStruct saveCount level =
             replayStruct\<lparr>calls := calls replayStruct @
               [RendererState (R_saveLayer (left mArea) (top mArea) (right mArea)
                  (bottom mArea) mAlpha mMode mFlags)]\<rparr>"
proof -
  have d: "defer_state env this deferStruct saveCount level =
           deferStruct\<lparr>calls := calls deferStruct @
             [RendererState R_getSaveCount,
              DeferredList (addSaveLayer this
                 (ret_int env (calls deferStruct @ [RendererState R_getSaveCount]))),
              RendererState (R_saveLayerDeferred (left mArea) (top mArea) (right mArea)
                 (bottom mArea) mAlpha mMode mFlags)]\<rparr>"
    by (simp add: defer_state_SaveLayerOp[OF assms] SaveLayerOp_defer_def Let_def)
  have n: "\<forall>e \<in> set (drop (length (calls deferStruct))
                          (calls (defer_state env this deferStruct saveCount level))).
               \<not> is_saveLayer e"
    unfolding d by simp
  have a: "applyState this renderer saveCount =
             renderer @ [RendererState (R_saveLayer (left mArea) (top mArea) (right mArea)
                (bottom mArea) mAlpha mMode mFlags)]"
    by (simp add: applyState_def assms)
  have r: "replay_state this replayStruct saveCount level =
             replayStruct\<lparr>calls := calls replayStruct @
               [RendererState (R_saveLayer (left mArea) (top mArea) (right mArea)
                  (bottom mArea) mAlpha mMode mFlags)]\<rparr>"
    by (simp add: replay_state_def StateOp_replay_def applyState_def assms)
  from d n a r show ?thesis by blast
qed

theorem SaveLayerOp_defer_issues_placeholder_only_witness:
  "stateClass (stateOp (SaveLayerOp (Rect_new 0 0 10 10) 128 3 0)) =
     SaveLayerOp (Rect_new 0 0 10 10) 128 3 0
   \<and> calls (defer_state spy (stateOp (SaveLayerOp (Rect_new 0 0 10 10) 128 3 0))
             (deferStruct0 1) 0 0) =
       [RendererState R_getSaveCount,
        DeferredList (addSaveLayer (stateOp (SaveLayerOp (Rect_new 0 0 10 10) 128 3 0)) 1),
        RendererState (R_saveLayerDeferred 0 0 10 10 128 3 0)]
   \<and> \<not> is_saveLayer (RendererState (R_saveLayerDeferred 0 0 10 10 128 3 0))
   \<and> calls (replay_state (stateOp (SaveLayerOp (Rect_new 0 0 10 10) 128 3 0))
             (replayStruct0 1) 0 0) =
       [RendererState (R_saveLayer 0 0 10 10 128 3 0)]"
proof -
  let ?op = "stateOp (SaveLayerOp (Rect_new 0 0 10 10) 128 3 0)"
  have h: "stateClass ?op = SaveLayerOp (Rect_new 0 0 10 10) 128 3 0"
    by (simp add: stateOp_def)
  note t = SaveLayerOp_defer_issues_placeholder_only[OF h, where env = spy
      and deferStruct = "deferStruct0 1" and saveCount = 0 and level = 0 and renderer = "[]"
      and replayStruct = "replayStruct0 1"]
  from t have d: "defer_state spy ?op (deferStruct0 1) 0 0 =
           (deferStruct0 1)\<lparr>calls := calls (deferStruct0 1) @
             [RendererState R_getSaveCount,
              DeferredList (addSaveLayer ?op
                 (ret_int spy (calls (deferStruct0 1) @ [RendererState R_getSaveCount]))),
              RendererState (R_saveLayerDeferred (left (Rect_new 0 0 10 10))
                 (top (Rect_new 0 0 10 10)) (right (Rect_new 0 0 10 10))
                 (bottom (Rect_new 0 0 10 10)) 128 3 0)]\<rparr>"
    by blast
  from t have n: "\<forall>e \<in> set (drop (length (calls (deferStruct0 1)))
                          (calls (defer_state spy ?op (deferStruct0 1) 0 0))).
               \<not> is_saveLayer e"
    by blast
  from t have r: "replay_state ?op (replayStruct0 1) 0 0 =
           (replayStruct0 1)\<lparr>calls := calls (replayStruct0 1) @
               [RendererState (R_saveLayer (left (Rect_new 0 0 10 10))
                 (top (Rect_new 0 0 10 10)) (right (Rect_new 0 0 10 10))
                 (bottom (Rect_new 0 0 10 10)) 128 3 0)]\<rparr>"
    by blast
  have c: "calls (defer_state spy ?op (deferStruct0 1) 0 0) =
       [RendererState R_getSaveCount,
        DeferredList (addSaveLayer ?op 1),
        RendererState (R_saveLayerDeferred 0 0 10 10 128 3 0)]"
    unfolding d by (simp add: deferStruct0_def Rect_new_def spy_def)
  have mem: "RendererState (R_saveLayerDeferred 0 0 10 10 128 3 0)
       \<in> set (drop (length (calls (deferStruct0 1)))
                 (calls (defer_state spy ?op (deferStruct0 1) 0 0)))"
    unfolding c by (simp add: deferStruct0_def)
  from n mem have ns: "\<not> is_saveLayer (RendererState (R_saveLayerDeferred 0 0 10 10 128 3 0))"
    by blast
  have rc: "calls (replay_state ?op (replayStruct0 1) 0 0) =
       [RendererState (R_saveLayer 0 0 10 10 128 3 0)]"
    unfolding r by (simp add: replayStruct0_def Rect_new_def)
  from h c ns rc show ?thesis by blast
qed

lemma sint_add_no_overflow:
  fixes a b :: int32
  assumes "- (2 ^ 31) \<le> sint a + sint b" "sint a + sint b < 2 ^ 31"
  shows "sint (a + b) = sint a + sint b"
  using assms by (simp add: sint_word_ariths signed_take_bit_int_eq_self)

text \<open>
  Claim C5. A \<^verbatim>\<open>RestoreToCountOp\<close> with recorded offset \<open>m\<close>, run with baseline
  \<open>saveCount = s\<close>, restores the renderer to \<open>s + m\<close> in replay and in defer, whatever
  the nesting level is; in defer the batch buffer is handed the same \<open>s + m\<close> before
  the renderer is restored. The sum is the 32-bit sum, which is the integer sum of the
  two signed values whenever that fits an \<^verbatim>\<open>int\<close>.
\<close>

theorem RestoreToCountOp_restores_relative_to_baseline:
  assumes "stateClass this = RestoreToCountOp m"
  shows "replay_state this replayStruct s level =
           replayStruct\<lparr>calls := calls replayStruct @
             [RendererState (R_restoreToCount (s + m))]\<rparr>
         \<and> defer_state env this deferStruct s level =
           deferStruct\<lparr>calls := calls deferStruct @
             [DeferredList (addRestoreToCount this (s + m)),
              RendererState (R_restoreToCount (s + m))]\<rparr>
         \<and> replay_state this replayStruct s level = replay_state this replayStruct s level'
         \<and> defer_state env this deferStruct s level = defer_state env this deferStruct s level'
         \<and> (- (2 ^ 31) \<le> sint s + sint m \<and> sint s + sint m < 2 ^ 31
              \<longrightarrow> sint (s + m) = sint s + sint m)"
proof -
  have r: "\<And>l. replay_state this replayStruct s l =
           replayStruct\<lparr>calls := calls replayStruct @
             [RendererState (R_restoreToCount (s + m))]\<rparr>"
    by (simp add: replay_state_def StateOp_replay_def applyState_def assms)
  have d: "\<And>l. defer_state env this deferStruct s l =
           deferStruct\<lparr>calls := calls deferStruct @
             [DeferredList (addRestoreToCount this (s + m)),
              RendererState (R_restoreToCount (s + m))]\<rparr>"
    by (simp add: defer_state_def RestoreToCountOp_defer_def assms)
  have o: "- (2 ^ 31) \<le> sint s + sint m \<and> sint s + sint m < 2 ^ 31
              \<longrightarrow> sint (s + m) = sint s + sint m"
    using sint_add_no_overflow[of s m] by blast
  show ?thesis
    using o by (simp only: r d simp_thms)
qed

theorem RestoreToCountOp_restores_relative_to_baseline_witness:
  "stateClass (stateOp (RestoreToCountOp 1)) = RestoreToCountOp 1
   \<and> calls (replay_state (stateOp (RestoreToCountOp 1)) (replayStruct0 1) 4 7) =
       [RendererState (R_restoreToCount 5)]
   \<and> calls (defer_state spy (stateOp (RestoreToCountOp 1)) (deferStruct0 1) 4 7) =
       [DeferredList (addRestoreToCount (stateOp (RestoreToCountOp 1)) 5),
        RendererState (R_restoreToCount 5)]
   \<and> - (2 ^ 31) \<le> sint (4 :: int32) + sint (1 :: int32)
   \<and> sint (4 :: int32) + sint (1 :: int32) < 2 ^ 31
   \<and> sint (4 + 1 :: int32) = sint (4 :: int32) + sint (1 :: int32)"
proof -
  have h: "stateClass (stateOp (RestoreToCountOp 1)) = RestoreToCountOp 1"
    by (simp add: stateOp_def)
  have lo: "- (2 ^ 31) \<le> sint (4 :: int32) + sint (1 :: int32)" by simp
  have hi: "sint (4 :: int32) + sint (1 :: int32) < 2 ^ 31" by simp
  note t = RestoreToCountOp_restores_relative_to_baseline[OF h, where replayStruct = "replayStruct0 1"
      and s = 4 and level = 7 and env = spy and deferStruct = "deferStruct0 1" and level' = 7]
  from t have r: "replay_state (stateOp (RestoreToCountOp 1)) (replayStruct0 1) 4 7 =
           (replayStruct0 1)\<lparr>calls := calls (replayStruct0 1) @
             [RendererState (R_restoreToCount (4 + 1))]\<rparr>"
    by blast
  from t have d: "defer_state spy (stateOp (RestoreToCountOp 1)) (deferStruct0 1) 4 7 =
           (deferStruct0 1)\<lparr>calls := calls (deferStruct0 1) @
             [DeferredList (addRestoreToCount (stateOp (RestoreToCountOp 1)) (4 + 1)),
              RendererState (R_restoreToCount (4 + 1))]\<rparr>"
    by blast
  from t lo hi have o: "sint (4 + 1 :: int32) = sint (4 :: int32) + sint (1 :: int32)"
    by blast
  show ?thesis
    apply (intro conjI)
         apply (rule h)
        apply (simp only: r)
        apply (simp add: replayStruct0_def)
       apply (simp only: d)
       apply (simp add: deferStruct0_def)
      apply (rule lo)
     apply (rule hi)
    apply (rule o)
    done
qed

section \<open>Draw operations in the two passes\<close>

lemma defer_draw_default:
  "\<not> is_DrawDisplayListOp (drawClass this) \<Longrightarrow>
     defer_draw env this deferStruct saveCount level =
       DrawOp_defer this deferStruct saveCount level"
  by (cases "drawClass this") (simp_all add: defer_draw_def)

lemma replay_draw_default:
  "\<not> is_DrawDisplayListOp (drawClass this) \<Longrightarrow>
     replay_draw env this replayStruct saveCount level =
       DrawOp_replay env this replayStruct saveCount level"
  by (cases "drawClass this") (simp_all add: replay_draw_def)

lemma DrawOp_defer_full:
  "\<not> (mQuickRejected this \<and> mReplayFlags deferStruct AND kReplayFlag_ClipChildren \<noteq> 0) \<Longrightarrow>
     DrawOp_defer this deferStruct saveCount level =
       (this\<lparr>state := (state this)\<lparr>mBounds := deferred_bounds this\<rparr>\<rparr>,
        deferStruct\<lparr>calls := calls deferStruct @
          [DeferredList (addDrawOp
             (this\<lparr>state := (state this)\<lparr>mBounds := deferred_bounds this\<rparr>\<rparr>))]\<rparr>)"
  by (cases "getLocalBounds this (mBounds (state this))")
     (auto simp add: DrawOp_defer_def deferred_bounds_def Let_def)

lemma DrawOp_replay_full:
  "\<not> (mQuickRejected this \<and> mReplayFlags replayStruct AND kReplayFlag_ClipChildren \<noteq> 0) \<Longrightarrow>
     DrawOp_replay env this replayStruct saveCount level =
       (case applyDraw env this (calls replayStruct) (mDirty replayStruct) level of
          (status, dirty', r1) \<Rightarrow>
            replayStruct\<lparr>calls := r1, mDirty := dirty',
              mDrawGlStatus := mDrawGlStatus replayStruct OR status\<rparr>)"
  by (auto simp add: DrawOp_replay_def)

text \<open>
  Claim C1, amended. For every draw operation other than the nested-list operation
  \<^verbatim>\<open>DrawDisplayListOp\<close>: if the operation is quick-rejected and the replay flags of the
  pass include the clip-children flag, defer and replay return at once, leaving the
  operation, the log of renderer and batch-buffer calls, the dirty rectangle and the
  draw status as they were. If the clip-children flag is absent, defer writes the
  bounds into the state and hands the operation to the batch buffer, and replay draws
  and accumulates the status, whatever the quick-rejected flag is.
\<close>

theorem DrawOp_quick_rejection:
  assumes "\<not> is_DrawDisplayListOp (drawClass this)"
  shows "(mQuickRejected this \<and> mReplayFlags deferStruct AND kReplayFlag_ClipChildren \<noteq> 0
            \<longrightarrow> defer_draw env this deferStruct saveCount level = (this, deferStruct))
         \<and> (mQuickRejected this \<and> mReplayFlags replayStruct AND kReplayFlag_ClipChildren \<noteq> 0
            \<longrightarrow> replay_draw env this replayStruct saveCount level = replayStruct)
         \<and> (mReplayFlags deferStruct AND kReplayFlag_ClipChildren = 0
            \<longrightarrow> defer_draw env this deferStruct saveCount level =
                  (this\<lparr>state := (state this)\<lparr>mBounds := deferred_bounds this\<rparr>\<rparr>,
                   deferStruct\<lparr>calls := calls deferStruct @
                     [DeferredList (addDrawOp
                        (this\<lparr>state := (state this)\<lparr>mBounds := deferred_bounds this\<rparr>\<rparr>))]\<rparr>))
         \<and> (mReplayFlags replayStruct AND kReplayFlag_ClipChildren = 0
            \<longrightarrow> replay_draw env this replayStruct saveCount level =
                  (case applyDraw env this (calls replayStruct) (mDirty replayStruct) level of
                     (status, dirty', r1) \<Rightarrow>
                       replayStruct\<lparr>calls := r1, mDirty := dirty',
                         mDrawGlStatus := mDrawGlStatus replayStruct OR status\<rparr>))"
proof (intro conjI impI)
  assume "mQuickRejected this \<and> mReplayFlags deferStruct AND kReplayFlag_ClipChildren \<noteq> 0"
  then show "defer_draw env this deferStruct saveCount level = (this, deferStruct)"
    by (simp add: defer_draw_default[OF assms] DrawOp_defer_def)
next
  assume "mQuickRejected this \<and> mReplayFlags replayStruct AND kReplayFlag_ClipChildren \<noteq> 0"
  then show "replay_draw env this replayStruct saveCount level = replayStruct"
    by (simp add: replay_draw_default[OF assms] DrawOp_replay_def)
next
  assume "mReplayFlags deferStruct AND kReplayFlag_ClipChildren = 0"
  then show "defer_draw env this deferStruct saveCount level =
                  (this\<lparr>state := (state this)\<lparr>mBounds := deferred_bounds this\<rparr>\<rparr>,
                   deferStruct\<lparr>calls := calls deferStruct @
                     [DeferredList (addDrawOp
                        (this\<lparr>state := (state this)\<lparr>mBounds := deferred_bounds this\<rparr>\<rparr>))]\<rparr>)"
    by (simp add: defer_draw_default[OF assms] DrawOp_defer_full)
next
  assume "mReplayFlags replayStruct AND kReplayFlag_ClipChildren = 0"
  then show "replay_draw env this replayStruct saveCount level =
                  (case applyDraw env this (calls replayStruct) (mDirty replayStruct) level of
                     (status, dirty', r1) \<Rightarrow>
                       replayStruct\<lparr>calls := r1, mDirty := dirty',
                         mDrawGlStatus := mDrawGlStatus replayStruct OR status\<rparr>)"
    by (simp add: replay_draw_default[OF assms] DrawOp_replay_full)
qed

lemma rectOp_eval:
  "drawClass (rectOp q) = DrawRectOp (Rect_new 0 0 50 50)"
  "mQuickRejected (rectOp q) = q"
  "mPaint (rectOp q) = Some strokePaint"
  "state (rectOp q) = state0"
  by (simp_all add: rectOp_def DrawRectOp_new_def DrawOp_new_def DrawStrokableOp_bounds_def
      DrawBoundedOp_bounds_def)

theorem DrawOp_quick_rejection_witness:
  "\<not> is_DrawDisplayListOp (drawClass (rectOp True))
   \<and> mQuickRejected (rectOp True)
   \<and> mReplayFlags (deferStruct0 1) AND kReplayFlag_ClipChildren \<noteq> 0
   \<and> defer_draw spy (rectOp True) (deferStruct0 1) 0 0 = (rectOp True, deferStruct0 1)
   \<and> replay_draw spy (rectOp True) (replayStruct0 1) 0 0 = replayStruct0 1
   \<and> mReplayFlags (replayStruct0 0) AND kReplayFlag_ClipChildren = 0
   \<and> calls (replay_draw spy (rectOp True) (replayStruct0 0) 0 0) =
       [RendererAux (R_filterPaint (Some strokePaint)),
        RendererDraw (R_drawRect 0 0 50 50 (Some strokePaint))]
   \<and> mDrawGlStatus (replay_draw spy (rectOp True) (replayStruct0 0) 0 0) = 2
   \<and> calls (snd (defer_draw spy (rectOp True) (deferStruct0 0) 0 0)) =
       [DeferredList (addDrawOp
          ((rectOp True)\<lparr>state := state0\<lparr>mBounds := Rect_new (- 2) (- 2) 52 52\<rparr>\<rparr>))]"
proof -
  have h: "\<not> is_DrawDisplayListOp (drawClass (rectOp True))"
    by (simp add: rectOp_eval)
  have q: "mQuickRejected (rectOp True)" by (simp add: rectOp_eval)
  have f1: "mReplayFlags (deferStruct0 1) AND kReplayFlag_ClipChildren \<noteq> 0"
    by (simp add: deferStruct0_def kReplayFlag_ClipChildren_def)
  have f2: "mReplayFlags (replayStruct0 1) AND kReplayFlag_ClipChildren \<noteq> 0"
    by (simp add: replayStruct0_def kReplayFlag_ClipChildren_def)
  have g1: "mReplayFlags (deferStruct0 0) AND kReplayFlag_ClipChildren = 0"
    by (simp add: deferStruct0_def kReplayFlag_ClipChildren_def)
  have g2: "mReplayFlags (replayStruct0 0) AND kReplayFlag_ClipChildren = 0"
    by (simp add: replayStruct0_def kReplayFlag_ClipChildren_def)
  have a: "defer_draw spy (rectOp True) (deferStruct0 1) 0 0 = (rectOp True, deferStruct0 1)"
    using DrawOp_quick_rejection[OF h, where deferStruct = "deferStruct0 1" and env = spy and saveCount = 0 and level = 0] q f1 by blast
  have b: "replay_draw spy (rectOp True) (replayStruct0 1) 0 0 = replayStruct0 1"
    using DrawOp_quick_rejection[OF h, where replayStruct = "replayStruct0 1" and env = spy and saveCount = 0 and level = 0] q f2 by blast
  have c: "replay_draw spy (rectOp True) (replayStruct0 0) 0 0 =
             (case applyDraw spy (rectOp True) (calls (replayStruct0 0))
                     (mDirty (replayStruct0 0)) 0 of
                (status, dirty', r1) \<Rightarrow>
                  (replayStruct0 0)\<lparr>calls := r1, mDirty := dirty',
                    mDrawGlStatus := mDrawGlStatus (replayStruct0 0) OR status\<rparr>)"
    using DrawOp_quick_rejection[OF h, where replayStruct = "replayStruct0 0" and env = spy and saveCount = 0 and level = 0] g2 by blast
  have d: "defer_draw spy (rectOp True) (deferStruct0 0) 0 0 =
             ((rectOp True)\<lparr>state := (state (rectOp True))
                 \<lparr>mBounds := deferred_bounds (rectOp True)\<rparr>\<rparr>,
              (deferStruct0 0)\<lparr>calls := calls (deferStruct0 0) @
                [DeferredList (addDrawOp
                   ((rectOp True)\<lparr>state := (state (rectOp True))
                      \<lparr>mBounds := deferred_bounds (rectOp True)\<rparr>\<rparr>))]\<rparr>)"
    using DrawOp_quick_rejection[OF h, where deferStruct = "deferStruct0 0" and env = spy and saveCount = 0 and level = 0] g1 by blast
  have ap: "applyDraw spy (rectOp True) [] (Rect_new 0 0 0 0) 0 =
              (2, Rect_new 0 0 0 0,
               [RendererAux (R_filterPaint (Some strokePaint)),
                RendererDraw (R_drawRect 0 0 50 50 (Some strokePaint))])"
    by (simp add: applyDraw_def rectOp_eval drawWithPaint_def getPaint_def issue_def spy_def
        spy_filterPaint_def Rect_new_def Let_def)
  have db: "deferred_bounds (rectOp True) = Rect_new (- 2) (- 2) 52 52"
    by (simp add: deferred_bounds_def getLocalBounds_def rectOp_eval
        DrawStrokableOp_getLocalBounds_def Rect_set_def outset_def strokeWidthOutset_def
        strokePaint_def Rect_new_def state0_def float32_sample_ops)
  show ?thesis
    apply (intro conjI)
            apply (rule h)
           apply (rule q)
          apply (rule f1)
         apply (rule a)
        apply (rule b)
       apply (rule g2)
      apply (simp only: c)
      apply (simp add: replayStruct0_def ap)
     apply (simp only: c)
     apply (simp add: replayStruct0_def ap)
    apply (simp only: d)
    apply (simp add: db rectOp_eval deferStruct0_def)
    done
qed

text \<open>
  Claim C1 as stated fails for \<^verbatim>\<open>DrawDisplayListOp\<close>, whose overrides of defer and
  replay never read the quick-rejected flag: a quick-rejected nested-list operation in a
  pass with the clip-children flag still enters the nested list, at level + 1.
\<close>

theorem quick_rejected_DrawDisplayListOp_counterexample:
  "mQuickRejected (listOp True (Some nestedList0))
   \<and> mReplayFlags (deferStruct0 1) AND kReplayFlag_ClipChildren \<noteq> 0
   \<and> mReplayFlags (replayStruct0 1) AND kReplayFlag_ClipChildren \<noteq> 0
   \<and> defer_draw spy (listOp True (Some nestedList0)) (deferStruct0 1) 0 0 \<noteq>
       (listOp True (Some nestedList0), deferStruct0 1)
   \<and> calls (snd (defer_draw spy (listOp True (Some nestedList0)) (deferStruct0 1) 0 0)) =
       [NestedList (L_defer nestedList0 1)]
   \<and> replay_draw spy (listOp True (Some nestedList0)) (replayStruct0 1) 0 0 \<noteq> replayStruct0 1
   \<and> calls (replay_draw spy (listOp True (Some nestedList0)) (replayStruct0 1) 0 0) =
       [NestedList (L_replay nestedList0 1)]"
  by (simp add: listOp_def nestedList0_def deferStruct0_def replayStruct0_def
      kReplayFlag_ClipChildren_def defer_draw_def replay_draw_def DrawDisplayListOp_defer_def
      DrawDisplayListOp_replay_def spy_def)

text \<open>
  Claim C6. The defer and the replay of a \<^verbatim>\<open>DrawDisplayListOp\<close> issue no draw of their
  own. When the nested list is non-null and renderable, the result is exactly what the
  nested list's defer (replay) returns when entered at level + 1; otherwise the pass
  structure comes back as it went in: no call is logged, the draw status and the dirty
  rectangle are unchanged, and nothing is registered with the batch buffer. The
  operation itself is unchanged in both cases.
\<close>

theorem DrawDisplayListOp_recurses_or_skips:
  assumes "drawClass this = DrawDisplayListOp mLocalBounds mDisplayList mFlags"
  shows "(\<forall>displayList. mDisplayList = Some displayList \<and> isRenderable displayList \<longrightarrow>
            defer_draw env this deferStruct saveCount level =
              (this, DisplayList_defer env displayList deferStruct (level + 1))
            \<and> replay_draw env this replayStruct saveCount level =
              DisplayList_replay env displayList replayStruct (level + 1))
         \<and> ((mDisplayList = None \<or> (\<exists>displayList. mDisplayList = Some displayList
                                        \<and> \<not> isRenderable displayList)) \<longrightarrow>
            defer_draw env this deferStruct saveCount level = (this, deferStruct)
            \<and> replay_draw env this replayStruct saveCount level = replayStruct)"
  by (auto simp add: defer_draw_def replay_draw_def assms DrawDisplayListOp_defer_def
      DrawDisplayListOp_replay_def)

theorem DrawDisplayListOp_recurses_or_skips_witness:
  "drawClass (listOp False (Some nestedList0)) =
     DrawDisplayListOp (Rect_new 0 0 100 50) (Some nestedList0) 0
   \<and> isRenderable nestedList0
   \<and> calls (snd (defer_draw spy (listOp False (Some nestedList0)) (deferStruct0 1) 0 3)) =
       [NestedList (L_defer nestedList0 4)]
   \<and> calls (replay_draw spy (listOp False (Some nestedList0)) (replayStruct0 1) 0 3) =
       [NestedList (L_replay nestedList0 4)]
   \<and> drawClass (listOp False (Some emptyList0)) =
     DrawDisplayListOp (Rect_new 0 0 100 50) (Some emptyList0) 0
   \<and> \<not> isRenderable emptyList0
   \<and> defer_draw spy (listOp False (Some emptyList0)) (deferStruct0 1) 0 3 =
       (listOp False (Some emptyList0), deferStruct0 1)
   \<and> replay_draw spy (listOp False (Some emptyList0)) (replayStruct0 1) 0 3 = replayStruct0 1"
proof -
  have h1: "drawClass (listOp False (Some nestedList0)) =
              DrawDisplayListOp (Rect_new 0 0 100 50) (Some nestedList0) 0"
    by (simp add: listOp_def)
  have h2: "drawClass (listOp False (Some emptyList0)) =
              DrawDisplayListOp (Rect_new 0 0 100 50) (Some emptyList0) 0"
    by (simp add: listOp_def)
  have r1: "isRenderable nestedList0" by (simp add: nestedList0_def)
  have r2: "\<not> isRenderable emptyList0" by (simp add: emptyList0_def)
  note t1 = DrawDisplayListOp_recurses_or_skips[OF h1, where env = spy
      and deferStruct = "deferStruct0 1" and replayStruct = "replayStruct0 1"
      and saveCount = 0 and level = 3]
  note t2 = DrawDisplayListOp_recurses_or_skips[OF h2, where env = spy
      and deferStruct = "deferStruct0 1" and replayStruct = "replayStruct0 1"
      and saveCount = 0 and level = 3]
  from t1 r1 have a:
    "defer_draw spy (listOp False (Some nestedList0)) (deferStruct0 1) 0 3 =
       (listOp False (Some nestedList0), DisplayList_defer spy nestedList0 (deferStruct0 1) (3 + 1))"
    "replay_draw spy (listOp False (Some nestedList0)) (replayStruct0 1) 0 3 =
       DisplayList_replay spy nestedList0 (replayStruct0 1) (3 + 1)"
    by blast+
  from t2 r2 have b:
    "defer_draw spy (listOp False (Some emptyList0)) (deferStruct0 1) 0 3 =
       (listOp False (Some emptyList0), deferStruct0 1)"
    "replay_draw spy (listOp False (Some emptyList0)) (replayStruct0 1) 0 3 = replayStruct0 1"
    by blast+
  show ?thesis
    apply (intro conjI)
           apply (rule h1)
          apply (rule r1)
         apply (simp only: a)
         apply (simp add: spy_def deferStruct0_def)
        apply (simp only: a)
        apply (simp add: spy_def replayStruct0_def)
       apply (rule h2)
      apply (rule r2)
     apply (rule b)
    apply (rule b)
    done
qed

lemma unbounded_not_list:
  "\<not> fst (getLocalBounds this localBounds) \<Longrightarrow> \<not> is_DrawDisplayListOp (drawClass this)"
  by (cases "drawClass this") (simp_all add: getLocalBounds_def DrawBoundedOp_getLocalBounds_def)

lemma getLocalBounds_False:
  "\<not> fst (getLocalBounds this localBounds) \<Longrightarrow>
     getLocalBounds this localBounds = (False, localBounds)"
  by (simp add: getLocalBounds_def DrawOp_getLocalBounds_def DrawBoundedOp_getLocalBounds_def
      DrawStrokableOp_getLocalBounds_def Let_def split: option.splits if_splits)

lemma unbounded_deferred_bounds:
  "\<not> fst (getLocalBounds this (mBounds (state this))) \<Longrightarrow>
     deferred_bounds this = setEmpty (mBounds (state this))"
  by (simp add: deferred_bounds_def getLocalBounds_False)

lemma setEmpty_eq: "setEmpty b = Rect_new 0 0 0 0"
  by (cases b) (simp add: setEmpty_def Rect_new_def)

text \<open>
  Claim C7. In a defer pass, a draw operation that is not skipped by quick rejection and
  whose \<^verbatim>\<open>getLocalBounds\<close> reports that there are no bounds gets \<^verbatim>\<open>setEmpty()\<close>
  applied to its state bounds, which makes them the empty rectangle, and is still handed
  to the batch buffer through \<^verbatim>\<open>addDrawOp\<close>, the only call the pass logs for it.
\<close>

theorem DrawOp_defer_unresolved_bounds:
  assumes "\<not> (mQuickRejected this \<and> mReplayFlags deferStruct AND kReplayFlag_ClipChildren \<noteq> 0)"
    and "\<not> fst (getLocalBounds this (mBounds (state this)))"
  shows "defer_draw env this deferStruct saveCount level =
           (this\<lparr>state := (state this)\<lparr>mBounds := setEmpty (mBounds (state this))\<rparr>\<rparr>,
            deferStruct\<lparr>calls := calls deferStruct @
              [DeferredList (addDrawOp
                 (this\<lparr>state := (state this)\<lparr>mBounds := setEmpty (mBounds (state this))\<rparr>\<rparr>))]\<rparr>)
         \<and> setEmpty (mBounds (state this)) = Rect_new 0 0 0 0"
  using assms
  by (simp add: defer_draw_default[OF unbounded_not_list[OF assms(2)]] DrawOp_defer_full
      unbounded_deferred_bounds setEmpty_eq)

theorem DrawOp_defer_unresolved_bounds_witness:
  "\<not> (mQuickRejected (colorOp False)
       \<and> mReplayFlags (deferStruct0 1) AND kReplayFlag_ClipChildren \<noteq> 0)
   \<and> \<not> fst (getLocalBounds (colorOp False) (mBounds (state (colorOp False))))
   \<and> mBounds (state (colorOp False)) = Rect_new 7 7 9 9
   \<and> mBounds (state (fst (defer_draw spy (colorOp False) (deferStruct0 1) 0 0))) =
       Rect_new 0 0 0 0
   \<and> calls (snd (defer_draw spy (colorOp False) (deferStruct0 1) 0 0)) =
       [DeferredList (addDrawOp ((colorOp False)\<lparr>state := state0\<lparr>mBounds := Rect_new 0 0 0 0\<rparr>\<rparr>))]"
proof -
  have h1: "\<not> (mQuickRejected (colorOp False)
       \<and> mReplayFlags (deferStruct0 1) AND kReplayFlag_ClipChildren \<noteq> 0)"
    by (simp add: colorOp_def)
  have h2: "\<not> fst (getLocalBounds (colorOp False) (mBounds (state (colorOp False))))"
    by (simp add: colorOp_def getLocalBounds_def DrawOp_getLocalBounds_def)
  have b0: "mBounds (state (colorOp False)) = Rect_new 7 7 9 9"
    by (simp add: colorOp_def state0_def)
  note t = DrawOp_defer_unresolved_bounds[OF h1 h2, where env = spy and saveCount = 0
      and level = 0]
  from t have e: "setEmpty (mBounds (state (colorOp False))) = Rect_new 0 0 0 0"
    by blast
  from t have d: "defer_draw spy (colorOp False) (deferStruct0 1) 0 0 =
           ((colorOp False)\<lparr>state := (state (colorOp False))\<lparr>mBounds := Rect_new 0 0 0 0\<rparr>\<rparr>,
            (deferStruct0 1)\<lparr>calls := calls (deferStruct0 1) @
              [DeferredList (addDrawOp
                 ((colorOp False)\<lparr>state := (state (colorOp False))
                    \<lparr>mBounds := Rect_new 0 0 0 0\<rparr>\<rparr>))]\<rparr>)"
    by (simp only: e)
  show ?thesis
    apply (intro conjI)
        apply (rule h1)
       apply (rule h2)
      apply (rule b0)
     apply (simp only: d)
     apply simp
    apply (simp only: d)
    apply (simp add: colorOp_def deferStruct0_def)
    done
qed

section \<open>What the passes write into an operation\<close>

lemma DrawOp_defer_writes_state_only:
  "(fst (DrawOp_defer this deferStruct saveCount level))\<lparr>state := state this\<rparr> = this"
  by (cases "getLocalBounds this (mBounds (state this))")
     (simp add: DrawOp_defer_def Let_def)

lemma defer_draw_writes_state_only:
  "(fst (defer_draw env this deferStruct saveCount level))\<lparr>state := state this\<rparr> = this"
  by (cases "drawClass this")
     (simp_all add: defer_draw_def DrawOp_defer_writes_state_only)

lemma onDrawOpDeferred_class_fields:
  "constructor_fields (fst (onDrawOpDeferred_class env st thisPaint c renderer)) =
     constructor_fields c"
  by (cases c) (simp_all add: Let_def split: prod.splits)

lemma onDrawOpDeferred_class_other:
  "\<not> is_DrawTextOp c \<Longrightarrow> fst (onDrawOpDeferred_class env st thisPaint c renderer) = c"
  by (cases c) (simp_all add: Let_def split: prod.splits)

lemma onDrawOpDeferred_fst:
  "fst (onDrawOpDeferred env this renderer) =
     this\<lparr>drawClass :=
       fst (onDrawOpDeferred_class env (state this) (mPaint this) (drawClass this) renderer)\<rparr>"
  by (simp add: onDrawOpDeferred_def split: prod.splits)

text \<open>
  Claim C2, amended. Defer, replay and the deferred-draw hook leave every field that
  the constructor of an operation received unchanged. A state operation is not written
  at all. The defer of a draw operation writes nothing but the state snapshot, replay
  writes nothing, and the hook writes nothing but the cached transform
  \<^verbatim>\<open>mPrecacheTransform\<close> of a \<^verbatim>\<open>DrawTextOp\<close>, which is not a constructor argument.
\<close>

theorem passes_keep_constructor_parameters:
  "fst (DisplayListOp_defer env (StateOperation s) deferStruct saveCount level) =
     StateOperation s
   \<and> (\<exists>d'. fst (DisplayListOp_defer env (DrawOperation d) deferStruct saveCount level) =
            DrawOperation d' \<and> d'\<lparr>state := state d\<rparr> = d)
   \<and> fst (DisplayListOp_replay env op replayStruct saveCount level) = op
   \<and> state (fst (onDrawOpDeferred env d renderer)) = state d
   \<and> mPaint (fst (onDrawOpDeferred env d renderer)) = mPaint d
   \<and> mQuickRejected (fst (onDrawOpDeferred env d renderer)) = mQuickRejected d
   \<and> constructor_fields (drawClass (fst (onDrawOpDeferred env d renderer))) =
       constructor_fields (drawClass d)
   \<and> (\<not> is_DrawTextOp (drawClass d) \<longrightarrow> fst (onDrawOpDeferred env d renderer) = d)"
proof (intro conjI)
  show "fst (DisplayListOp_defer env (StateOperation s) deferStruct saveCount level) =
          StateOperation s"
    by (simp add: DisplayListOp_defer_def)
  show "\<exists>d'. fst (DisplayListOp_defer env (DrawOperation d) deferStruct saveCount level) =
            DrawOperation d' \<and> d'\<lparr>state := state d\<rparr> = d"
    using defer_draw_writes_state_only[where env = env and this = d and deferStruct = deferStruct
        and saveCount = saveCount and level = level]
    by (auto simp add: DisplayListOp_defer_def split: prod.splits)
  show "fst (DisplayListOp_replay env op replayStruct saveCount level) = op"
    by (cases op) (simp_all add: DisplayListOp_replay_def)
  show "state (fst (onDrawOpDeferred env d renderer)) = state d"
    by (simp add: onDrawOpDeferred_fst)
  show "mPaint (fst (onDrawOpDeferred env d renderer)) = mPaint d"
    by (simp add: onDrawOpDeferred_fst)
  show "mQuickRejected (fst (onDrawOpDeferred env d renderer)) = mQuickRejected d"
    by (simp add: onDrawOpDeferred_fst)
  show "constructor_fields (drawClass (fst (onDrawOpDeferred env d renderer))) =
          constructor_fields (drawClass d)"
    by (simp add: onDrawOpDeferred_fst onDrawOpDeferred_class_fields)
  show "\<not> is_DrawTextOp (drawClass d) \<longrightarrow> fst (onDrawOpDeferred env d renderer) = d"
    by (simp add: onDrawOpDeferred_fst onDrawOpDeferred_class_other)
qed

theorem passes_keep_constructor_parameters_witness:
  "\<not> is_DrawTextOp (drawClass (rectOp False))
   \<and> fst (onDrawOpDeferred spy (rectOp False) []) = rectOp False
   \<and> fst (DisplayListOp_replay spy (DrawOperation (rectOp False)) (replayStruct0 0) 0 0) =
       DrawOperation (rectOp False)
   \<and> constructor_fields (drawClass (fst (onDrawOpDeferred spy textOp []))) =
       constructor_fields (drawClass textOp)"
proof -
  have h: "\<not> is_DrawTextOp (drawClass (rectOp False))"
    by (simp add: rectOp_eval)
  note t1 = passes_keep_constructor_parameters[where env = spy and d = "rectOp False"
      and renderer = "[]" and op = "DrawOperation (rectOp False)"
      and replayStruct = "replayStruct0 0" and saveCount = 0 and level = 0]
  note t2 = passes_keep_constructor_parameters[where env = spy and d = textOp
      and renderer = "[]"]
  from t1 h have a: "fst (onDrawOpDeferred spy (rectOp False) []) = rectOp False"
    by blast
  from t1 have b:
    "fst (DisplayListOp_replay spy (DrawOperation (rectOp False)) (replayStruct0 0) 0 0) =
       DrawOperation (rectOp False)"
    by blast
  from t2 have c: "constructor_fields (drawClass (fst (onDrawOpDeferred spy textOp []))) =
       constructor_fields (drawClass textOp)"
    by blast
  from h a b c show ?thesis by blast
qed

text \<open>
  Claim C2 as stated fails in its second half: the hook of a \<^verbatim>\<open>DrawTextOp\<close> writes the
  field \<^verbatim>\<open>mPrecacheTransform\<close>, which is not part of the state snapshot. Here the text
  operation is as its constructor leaves it and the renderer's best font transform is
  the identity.
\<close>

theorem DrawTextOp_hook_writes_cache_counterexample:
  "state (fst (onDrawOpDeferred spy textOp [])) = state textOp
   \<and> drawClass textOp =
       DrawTextOp (Rect_new 0 (- 10) 30 2) ''abc'' 3 3 0 0 [] 30 (replicate 16 0xFFFFFFFF)
   \<and> drawClass (fst (onDrawOpDeferred spy textOp [])) =
       DrawTextOp (Rect_new 0 (- 10) 30 2) ''abc'' 3 3 0 0 [] 30 mat4_identity
   \<and> drawClass (fst (onDrawOpDeferred spy textOp [])) \<noteq> drawClass textOp"
proof -
  have rep: "replicate 16 a = a # replicate 15 a" for a :: "32 word"
    by (simp add: eval_nat_numeral)
  have ne: "replicate 16 (0xFFFFFFFF :: 32 word) \<noteq> mat4_identity"
    by (simp add: rep mat4_identity_def)
  have run: "fst (onDrawOpDeferred spy textOp []) =
               textOp\<lparr>drawClass :=
                 DrawTextOp (Rect_new 0 (- 10) 30 2) ''abc'' 3 3 0 0 [] 30 mat4_identity\<rparr>"
    using ne by (simp add: onDrawOpDeferred_def textOp_def getPaint_def spy_def Let_def)
  show ?thesis
    unfolding run using ne by (simp add: textOp_def)
qed

section \<open>Stroke outset and batch ids\<close>











text \<open>
  Claim C10, amended. Every \<^verbatim>\<open>DrawStrokableOp\<close> (rect, round rect, circle, oval, arc)
  with a paint reports the alpha-mask-textured batch id when the paint has a path
  effect, whatever its style and its antialiasing flag; without a path effect it
  reports the antialiased-vertices batch id when antialiasing is on and the
  plain-vertices batch id when it is off, whatever its style. \<^verbatim>\<open>DrawLinesOp\<close> and
  \<^verbatim>\<open>DrawPointsOp\<close> report by the antialiasing flag alone.
\<close>

theorem getBatchId_path_effect_then_antialias:
  "(is_DrawStrokableOp (drawClass this) \<and> mPaint this = Some paint
      \<longrightarrow> getBatchId this =
            Inr (if getPathEffect paint \<noteq> None then kOpBatch_AlphaMaskTexture
                 else if isAntiAlias paint then kOpBatch_AlphaVertices
                 else kOpBatch_Vertices))
   \<and> (is_DrawLinesOp (drawClass this) \<and> mPaint this = Some paint
      \<longrightarrow> getBatchId this =
            Inr (if isAntiAlias paint then kOpBatch_AlphaVertices else kOpBatch_Vertices))"
  by (cases "drawClass this")
     (simp_all add: getBatchId_def DrawStrokableOp_getBatchId_def DrawLinesOp_getBatchId_def)

theorem getBatchId_path_effect_then_antialias_witness:
  "is_DrawStrokableOp (drawClass (rectOp False))
   \<and> mPaint (rectOp False) = Some strokePaint
   \<and> getBatchId (rectOp False) = Inr kOpBatch_AlphaVertices
   \<and> is_DrawLinesOp (drawClass linesOp)
   \<and> mPaint linesOp = Some effectPaint
   \<and> getBatchId linesOp = Inr kOpBatch_AlphaVertices"
proof -
  have c: "drawClass (rectOp False) = DrawRectOp (Rect_new 0 0 50 50)"
    by (simp add: rectOp_def DrawRectOp_new_def DrawOp_new_def DrawStrokableOp_bounds_def
        DrawBoundedOp_bounds_def)
  have s: "is_DrawStrokableOp (drawClass (rectOp False))" by (simp add: c)
  have p: "mPaint (rectOp False) = Some strokePaint"
    by (simp add: rectOp_def DrawRectOp_new_def DrawOp_new_def)
  have l: "is_DrawLinesOp (drawClass linesOp)" by (simp add: linesOp_def)
  have q: "mPaint linesOp = Some effectPaint" by (simp add: linesOp_def)
  have a: "getBatchId (rectOp False) =
            Inr (if getPathEffect strokePaint \<noteq> None then kOpBatch_AlphaMaskTexture
                 else if isAntiAlias strokePaint then kOpBatch_AlphaVertices
                 else kOpBatch_Vertices)"
    using getBatchId_path_effect_then_antialias[where this = "rectOp False"
        and paint = strokePaint] s p by blast
  have b: "getBatchId linesOp =
            Inr (if isAntiAlias effectPaint then kOpBatch_AlphaVertices else kOpBatch_Vertices)"
    using getBatchId_path_effect_then_antialias[where this = linesOp and paint = effectPaint]
      l q by blast
  show ?thesis
    apply (intro conjI)
         apply (rule s)
        apply (rule p)
       apply (simp add: a strokePaint_def)
      apply (rule l)
     apply (rule q)
    apply (simp add: b effectPaint_def)
    done
qed

text \<open>
  Claim C10 as stated fails twice. A fill-style rect with antialiasing on whose paint
  has a path effect reports the alpha-mask-textured batch id, not the
  antialiased-vertices one: the path effect is tested first and the style never.
  And a stroke-style \<^verbatim>\<open>DrawLinesOp\<close> whose paint has a path effect reports the
  antialiased-vertices batch id: its \<^verbatim>\<open>getBatchId\<close> does not look at the path effect.
\<close>

theorem fill_style_path_effect_counterexample:
  "getStyle fillPaint = kFill_Style
   \<and> isAntiAlias fillPaint
   \<and> getBatchId (DrawRectOp_new state0 0 0 50 50 (Some fillPaint)) =
       Inr kOpBatch_AlphaMaskTexture
   \<and> getBatchId (DrawRectOp_new state0 0 0 50 50 (Some fillPaint)) \<noteq>
       Inr kOpBatch_AlphaVertices
   \<and> getStyle effectPaint = kStroke_Style
   \<and> getPathEffect effectPaint \<noteq> None
   \<and> getBatchId linesOp = Inr kOpBatch_AlphaVertices
   \<and> getBatchId linesOp \<noteq> Inr kOpBatch_AlphaMaskTexture"
  by (simp add: fillPaint_def effectPaint_def linesOp_def getBatchId_def DrawRectOp_new_def
      DrawOp_new_def DrawStrokableOp_getBatchId_def DrawLinesOp_getBatchId_def)

end
